theory Spec2Isabelle
  imports Main "HOL-Library.Char_ord" "HOL-Library.List_Lexorder" "HOL-Library.Multiset"
begin

section \<open>Strings of the contact manager\<close>

text \<open>
  The program is Python 3, so its strings are sequences of Unicode code points. Here a
  string is a list of 8-bit characters and the character with code \<open>n\<close> stands for the
  code point \<open>n\<close>: the model covers the strings over the code points 0 to 255. On that
  range the definitions below are the tables of Python's \<open>str\<close> methods. The order on
  strings (\<open>HOL-Library.List_Lexorder\<close> over \<open>HOL-Library.Char_ord\<close>) is Python's: code
  point by code point, a proper prefix first.
\<close>

definition code :: "char \<Rightarrow> nat" where
  "code c = of_char c"

definition between :: "nat \<Rightarrow> nat \<Rightarrow> char \<Rightarrow> bool" where
  "between lo hi c = (lo \<le> code c \<and> code c \<le> hi)"

text \<open>\<open>str.isspace\<close> of one character; \<open>str.strip()\<close> removes exactly these.\<close>

definition py_isspace_char :: "char \<Rightarrow> bool" where
  "py_isspace_char c =
     (between 9 13 c \<or> between 28 32 c \<or> code c = 133 \<or> code c = 160)"

text \<open>\<open>str.isalpha\<close> of one character: the letters of ASCII and of the Latin-1 block.\<close>

definition py_isalpha_char :: "char \<Rightarrow> bool" where
  "py_isalpha_char c =
     (between 65 90 c \<or> between 97 122 c \<or> code c = 170 \<or> code c = 181 \<or> code c = 186
      \<or> between 192 214 c \<or> between 216 246 c \<or> between 248 255 c)"

text \<open>The decimal digits \<open>0\<close> to \<open>9\<close> (\<open>str.isdecimal\<close>).\<close>

definition py_isdecimal_char :: "char \<Rightarrow> bool" where
  "py_isdecimal_char c = between 48 57 c"

text \<open>
  \<open>str.isdigit\<close> of one character: the decimal digits and the superscripts
  two, three (178, 179) and one (185).
\<close>

definition py_isdigit_char :: "char \<Rightarrow> bool" where
  "py_isdigit_char c = (py_isdecimal_char c \<or> between 178 179 c \<or> code c = 185)"

text \<open>\<open>str.isnumeric\<close> of one character: the digits and the fractions 188 to 190.\<close>

definition py_isnumeric_char :: "char \<Rightarrow> bool" where
  "py_isnumeric_char c = (py_isdigit_char c \<or> between 188 190 c)"

text \<open>
  The cased characters, which \<open>str.title()\<close> uses to find the start of a word. Below
  code point 256 they are the alphabetic ones.
\<close>

definition py_iscased_char :: "char \<Rightarrow> bool" where
  "py_iscased_char c = py_isalpha_char c"

definition py_isalpha :: "string \<Rightarrow> bool" where
  "py_isalpha s = (s \<noteq> [] \<and> list_all py_isalpha_char s)"

definition py_isdigit :: "string \<Rightarrow> bool" where
  "py_isdigit s = (s \<noteq> [] \<and> list_all py_isdigit_char s)"

definition py_strip :: "string \<Rightarrow> string" where
  "py_strip s = rev (dropWhile py_isspace_char (rev (dropWhile py_isspace_char s)))"

definition py_lower_char :: "char \<Rightarrow> char" where
  "py_lower_char c =
     (if between 65 90 c \<or> between 192 214 c \<or> between 216 222 c
      then char_of (code c + 32) else c)"

definition py_lower :: "string \<Rightarrow> string" where
  "py_lower s = map py_lower_char s"

text \<open>
  The title-case form of a character at the start of a word. The sharp s (223) becomes
  the two characters \<open>Ss\<close>. The micro sign (181) and the y with diaeresis (255) have
  title-case forms above code point 255 (924 and 376), which a string of this model
  cannot hold: the result is \<open>None\<close> there, and the operations stop with the error
  \<open>Beyond_latin1\<close> rather than store a different name.
\<close>

definition py_title_char :: "char \<Rightarrow> string option" where
  "py_title_char c =
     (if between 97 122 c \<or> between 224 246 c \<or> between 248 254 c
        then Some [char_of (code c - 32)]
      else if code c = 223 then Some ''Ss''
      else if code c = 181 \<or> code c = 255 then None
      else Some [c])"

text \<open>
  \<open>str.title()\<close>: a character that follows a cased character is lower-cased, any other
  character is title-cased. The flag is Python's \<open>previous_is_cased\<close>.
\<close>

fun title_from :: "bool \<Rightarrow> string \<Rightarrow> string option" where
  "title_from previous_is_cased [] = Some []"
| "title_from previous_is_cased (c # cs) =
     (case (if previous_is_cased then Some [py_lower_char c] else py_title_char c) of
        None \<Rightarrow> None
      | Some t \<Rightarrow>
          (case title_from (py_iscased_char c) cs of
             None \<Rightarrow> None
           | Some r \<Rightarrow> Some (t @ r)))"

definition py_title :: "string \<Rightarrow> string option" where
  "py_title s = title_from False s"

text \<open>\<open>str.ljust\<close>, which is what the format field \<open>{:<n}\<close> does to a string.\<close>

definition ljust :: "nat \<Rightarrow> string \<Rightarrow> string" where
  "ljust n s = s @ replicate (n - length s) (CHR '' '')"

fun py_join :: "string \<Rightarrow> string list \<Rightarrow> string" where
  "py_join sep [] = []"
| "py_join sep [x] = x"
| "py_join sep (x # y # ys) = x @ sep @ py_join sep (y # ys)"

text \<open>\<open>str(n)\<close> of a natural number: its decimal digits.\<close>

fun str_nat :: "nat \<Rightarrow> string" where
  "str_nat n =
     (if n < 10 then [char_of (48 + n)]
      else str_nat (n div 10) @ [char_of (48 + n mod 10)])"

declare str_nat.simps [simp del]

subsection \<open>\<open>int(s)\<close> on a string\<close>

text \<open>
  \<open>int\<close> skips the white space around the number (the characters 9 to 13, 32, 133 and
  160; not 28 to 31, which \<open>strip\<close> removes), reads an optional sign and then decimal
  digits, where single underscores may stand between two digits. Anything else raises
  \<open>ValueError\<close>, here \<open>None\<close>; so does a numeral of more than 4300 digits, the default
  of \<open>sys.set_int_max_str_digits\<close>.
\<close>

definition int_max_str_digits :: nat where
  "int_max_str_digits = 4300"

definition int_space :: "char \<Rightarrow> bool" where
  "int_space c = (between 9 13 c \<or> code c = 32 \<or> code c = 133 \<or> code c = 160)"

definition digit_value :: "char \<Rightarrow> int" where
  "digit_value c = int (code c) - 48"

text \<open>
  The digits after the first one: \<open>acc\<close> is the value read so far, and the character
  before the rest was a digit.
\<close>

fun int_digits :: "int \<Rightarrow> string \<Rightarrow> int option" where
  "int_digits acc [] = Some acc"
| "int_digits acc [c] =
     (if py_isdecimal_char c then Some (10 * acc + digit_value c) else None)"
| "int_digits acc (c # d # ds) =
     (if py_isdecimal_char c then int_digits (10 * acc + digit_value c) (d # ds)
      else if c = CHR ''_'' \<and> py_isdecimal_char d then int_digits acc (d # ds)
      else None)"

definition int_unsigned :: "string \<Rightarrow> int option" where
  "int_unsigned s =
     (case s of
        [] \<Rightarrow> None
      | c # cs \<Rightarrow>
          if \<not> py_isdecimal_char c then None
          else if int_max_str_digits < length (filter py_isdecimal_char s) then None
          else int_digits (digit_value c) cs)"

definition py_int :: "string \<Rightarrow> int option" where
  "py_int s =
     (let t = rev (dropWhile int_space (rev (dropWhile int_space s)))
      in case t of
           [] \<Rightarrow> None
         | c # cs \<Rightarrow>
             if c = CHR ''-'' then map_option uminus (int_unsigned cs)
             else if c = CHR ''+'' then int_unsigned cs
             else int_unsigned t)"

section \<open>Validators\<close>

definition validate_name :: "string \<Rightarrow> bool \<Rightarrow> bool" where
  "validate_name name allow_blank =
     (if allow_blank \<and> name = [] then True else py_isalpha name)"

definition validate_number :: "string \<Rightarrow> bool \<Rightarrow> bool" where
  "validate_number number allow_blank =
     (if allow_blank \<and> number = [] then True
      else py_isdigit number \<and> length number = 10)"

subsection \<open>The regular expression of \<open>validate_email\<close>\<close>

text \<open>
  The pattern is \<^verbatim>\<open>^[\w\.-]+@[\w\.-]+\.\w+$\<close>. It is a sequence of items: a literal
  character, a character class repeated one or more times, and the anchor \<open>$\<close>.
  \<open>re_match\<close> is \<open>re.match\<close>: it looks for a match that starts at the first character
  (so the leading \<open>^\<close> adds nothing) and need not reach the end of the string; it
  answers whether one exists, which is what backtracking finds. \<open>$\<close> holds at the end
  of the string and just before a line feed that ends the string.
\<close>

datatype item = Lit char | OneOrMore "char \<Rightarrow> bool" | EndAnchor

definition line_feed :: char where
  "line_feed = CHR 0x0A"

fun re_match :: "item list \<Rightarrow> string \<Rightarrow> bool" where
  "re_match [] s = True"
| "re_match (Lit c # p) [] = False"
| "re_match (Lit c # p) (x # xs) = (x = c \<and> re_match p xs)"
| "re_match (OneOrMore cls # p) [] = False"
| "re_match (OneOrMore cls # p) (x # xs) =
     (cls x \<and> (re_match (OneOrMore cls # p) xs \<or> re_match p xs))"
| "re_match (EndAnchor # p) s = ((s = [] \<or> s = [line_feed]) \<and> re_match p s)"

text \<open>
  \<open>\w\<close> in a pattern on \<open>str\<close>: the alphanumeric characters (alphabetic, decimal, digit
  or numeric) and the underscore.
\<close>

definition word_char :: "char \<Rightarrow> bool" where
  "word_char c =
     (py_isalpha_char c \<or> py_isdecimal_char c \<or> py_isdigit_char c \<or> py_isnumeric_char c
      \<or> c = CHR ''_'')"

text \<open>The class \<^verbatim>\<open>[\w\.-]\<close>.\<close>

definition word_dot_hyphen :: "char \<Rightarrow> bool" where
  "word_dot_hyphen c = (word_char c \<or> c = CHR ''.'' \<or> c = CHR ''-'')"

definition email_pattern :: "item list" where
  "email_pattern =
     [OneOrMore word_dot_hyphen, Lit (CHR ''@''), OneOrMore word_dot_hyphen,
      Lit (CHR ''.''), OneOrMore word_char, EndAnchor]"

definition validate_email :: "string \<Rightarrow> bool \<Rightarrow> bool" where
  "validate_email email allow_blank =
     (if allow_blank \<and> email = [] then True else re_match email_pattern email)"


section \<open>The \<open>csv\<close> module\<close>

text \<open>
  The program reads and writes its file through \<open>csv.DictReader\<close> and \<open>csv.DictWriter\<close>
  with the default dialect: the delimiter is the comma, the quote character is the
  double quote, a quote inside a quoted field is doubled, fields are quoted only where
  needed, and a written row ends with carriage return and line feed. The definitions
  of this section follow the reader and the writer of CPython 3.11 on that dialect.
  What the program can raise is an \<open>error\<close>; \<open>Csv_Error\<close> is \<open>csv.Error\<close>, and
  \<open>Beyond_latin1\<close> marks the one place where Python goes on with a string that this model
  has no room for, a title-cased name above code point 255.
\<close>

datatype error =
  EOFError | ValueError | TypeError | AttributeError | Csv_Error | UnicodeDecodeError
  | Beyond_latin1

definition carriage_return :: char where
  "carriage_return = CHR 0x0D"

definition quotechar :: char where
  "quotechar = CHR 0x22"

definition delimiter :: char where
  "delimiter = CHR '',''"

subsection \<open>The reader\<close>

text \<open>
  The reader is a state machine over the characters of a line. It collects the
  characters of the field in \<open>field\<close> and the fields of the record in \<open>row_fields\<close>. A
  field may hold \<open>field_limit\<close> characters; one more raises \<open>csv.Error\<close>.
\<close>

datatype parser_state =
  START_RECORD | START_FIELD | IN_FIELD | IN_QUOTED_FIELD | QUOTE_IN_QUOTED_FIELD | EAT_CRNL

record reader =
  parse_state :: parser_state
  field :: string
  row_fields :: "string list"

definition field_limit :: int where
  "field_limit = 131072"

definition parse_reset :: reader where
  "parse_reset = \<lparr>parse_state = START_RECORD, field = [], row_fields = []\<rparr>"

definition parse_add_char :: "reader \<Rightarrow> char \<Rightarrow> error + reader" where
  "parse_add_char rd c =
     (if field_limit \<le> int (length (field rd)) then Inl Csv_Error
      else Inr (rd\<lparr>field := field rd @ [c]\<rparr>))"

definition parse_save_field :: "reader \<Rightarrow> reader" where
  "parse_save_field rd = rd\<lparr>row_fields := row_fields rd @ [field rd], field := []\<rparr>"

definition newline_char :: "char \<Rightarrow> bool" where
  "newline_char c = (c = line_feed \<or> c = carriage_return)"

text \<open>
  One step of the machine. The argument \<open>Some c\<close> is the character \<open>c\<close> of the line and
  \<open>None\<close> is the mark that the reader processes after the last character of every
  line. A character that begins a record is handled as one that begins a field.
\<close>

definition start_field :: "char \<Rightarrow> reader \<Rightarrow> error + reader" where
  "start_field c rd =
     (if newline_char c then Inr ((parse_save_field rd)\<lparr>parse_state := EAT_CRNL\<rparr>)
      else if c = quotechar then Inr (rd\<lparr>parse_state := IN_QUOTED_FIELD\<rparr>)
      else if c = delimiter then Inr (parse_save_field rd)
      else (case parse_add_char rd c of
              Inl e \<Rightarrow> Inl e
            | Inr rd' \<Rightarrow> Inr (rd'\<lparr>parse_state := IN_FIELD\<rparr>)))"

fun process :: "parser_state \<Rightarrow> char option \<Rightarrow> reader \<Rightarrow> error + reader" where
  "process START_RECORD None rd = Inr rd"
| "process START_RECORD (Some c) rd =
     (if newline_char c then Inr (rd\<lparr>parse_state := EAT_CRNL\<rparr>)
      else start_field c (rd\<lparr>parse_state := START_FIELD\<rparr>))"
| "process START_FIELD None rd = Inr ((parse_save_field rd)\<lparr>parse_state := START_RECORD\<rparr>)"
| "process START_FIELD (Some c) rd = start_field c rd"
| "process IN_FIELD None rd = Inr ((parse_save_field rd)\<lparr>parse_state := START_RECORD\<rparr>)"
| "process IN_FIELD (Some c) rd =
     (if newline_char c then Inr ((parse_save_field rd)\<lparr>parse_state := EAT_CRNL\<rparr>)
      else if c = delimiter then Inr ((parse_save_field rd)\<lparr>parse_state := START_FIELD\<rparr>)
      else parse_add_char rd c)"
| "process IN_QUOTED_FIELD None rd = Inr rd"
| "process IN_QUOTED_FIELD (Some c) rd =
     (if c = quotechar then Inr (rd\<lparr>parse_state := QUOTE_IN_QUOTED_FIELD\<rparr>)
      else parse_add_char rd c)"
| "process QUOTE_IN_QUOTED_FIELD None rd =
     Inr ((parse_save_field rd)\<lparr>parse_state := START_RECORD\<rparr>)"
| "process QUOTE_IN_QUOTED_FIELD (Some c) rd =
     (if c = quotechar
      then (case parse_add_char rd c of
              Inl e \<Rightarrow> Inl e
            | Inr rd' \<Rightarrow> Inr (rd'\<lparr>parse_state := IN_QUOTED_FIELD\<rparr>))
      else if c = delimiter then Inr ((parse_save_field rd)\<lparr>parse_state := START_FIELD\<rparr>)
      else if newline_char c then Inr ((parse_save_field rd)\<lparr>parse_state := EAT_CRNL\<rparr>)
      else (case parse_add_char rd c of
              Inl e \<Rightarrow> Inl e
            | Inr rd' \<Rightarrow> Inr (rd'\<lparr>parse_state := IN_FIELD\<rparr>)))"
| "process EAT_CRNL None rd = Inr (rd\<lparr>parse_state := START_RECORD\<rparr>)"
| "process EAT_CRNL (Some c) rd = (if newline_char c then Inr rd else Inl Csv_Error)"

definition parse_process_char :: "reader \<Rightarrow> char option \<Rightarrow> error + reader" where
  "parse_process_char rd c = process (parse_state rd) c rd"

text \<open>
  The file is opened with \<open>newline=""\<close>, so its lines keep their ends and a line ends
  after a line feed, after a carriage return that no line feed follows, and at the end
  of the text. \<open>ends_line c cs\<close> says that a line ends after \<open>c\<close> when \<open>cs\<close> is the text
  after it.
\<close>

definition ends_line :: "char \<Rightarrow> string \<Rightarrow> bool" where
  "ends_line c cs =
     (c = line_feed \<or> cs = [] \<or> (c = carriage_return \<and> hd cs \<noteq> line_feed))"

definition row_then ::
  "string list \<Rightarrow> string list list \<times> error option \<Rightarrow> string list list \<times> error option"
where
  "row_then row later = (row # fst later, snd later)"

text \<open>
  The records that iterating over \<open>csv.reader(file)\<close> yields, in their order, and the
  error that ends the iteration if one does. The reader takes the text line by line;
  a record is complete when the machine is back in \<open>START_RECORD\<close> at the end of a
  line, and then the machine is reset. When the text ends inside a quoted field, what
  was read is the last record.
\<close>

fun reader_rows :: "reader \<Rightarrow> string \<Rightarrow> string list list \<times> error option" where
  "reader_rows rd [] =
     (if field rd \<noteq> [] \<or> parse_state rd = IN_QUOTED_FIELD
      then ([row_fields (parse_save_field rd)], None)
      else ([], None))"
| "reader_rows rd (c # cs) =
     (case parse_process_char rd (Some c) of
        Inl e \<Rightarrow> ([], Some e)
      | Inr rd1 \<Rightarrow>
          if ends_line c cs
          then (case parse_process_char rd1 None of
                  Inl e \<Rightarrow> ([], Some e)
                | Inr rd2 \<Rightarrow>
                    if parse_state rd2 = START_RECORD
                    then row_then (row_fields rd2) (reader_rows parse_reset cs)
                    else reader_rows rd2 cs)
          else reader_rows rd1 cs)"

subsection \<open>The writer\<close>

text \<open>
  A field is written between quotes, with its quotes doubled, when it holds the
  delimiter, a quote, a carriage return or a line feed; \<open>None\<close> is written as the empty
  field. A row of one empty field is written as two quotes. The writer has no limit on
  the length of a field.
\<close>

definition needs_quotes :: "char \<Rightarrow> bool" where
  "needs_quotes c = (c = delimiter \<or> c = quotechar \<or> newline_char c)"

definition join_append :: "string \<Rightarrow> string" where
  "join_append f =
     (if list_ex needs_quotes f
      then quotechar # concat (map (\<lambda>c. if c = quotechar then [c, c] else [c]) f) @ [quotechar]
      else f)"

definition writerow :: "string option list \<Rightarrow> string" where
  "writerow row =
     (let fs = map (\<lambda>v. case v of None \<Rightarrow> [] | Some f \<Rightarrow> f) row
      in (if fs = [[]] then [quotechar, quotechar] else py_join [delimiter] (map join_append fs))
         @ [carriage_return, line_feed])"

section \<open>Contacts, the console and the backing file\<close>

text \<open>
  A contact is a dictionary. The ones that \<open>add_contact\<close> builds have the five keys of
  \<open>FIELDNAMES\<close> with strings as values. \<open>load_contacts\<close> appends what \<open>csv.DictReader\<close>
  returns: a row of fewer than five fields gives the value \<open>None\<close> to the keys that are
  left, and the fields of a row beyond the fifth are stored as a list under the key
  \<open>None\<close>. So a value is a \<open>string option\<close>, and \<open>restkey\<close> is the list under the key
  \<open>None\<close> when the dictionary has that key. Two dictionaries are equal when they have
  the same keys with the same values, which is the equality of the record.
\<close>

record contact =
  first_name :: "string option"
  middle_name :: "string option"
  last_name :: "string option"
  number :: "string option"
  email :: "string option"
  restkey :: "string list option"

definition FIELDNAMES :: "string list" where
  "FIELDNAMES = [''first_name'', ''middle_name'', ''last_name'', ''number'', ''email'']"

text \<open>
  The global list \<open>contacts\<close>, the file \<open>contact.csv\<close> and what was written to the
  console make up the state. The file is opened as text: \<open>Text t\<close> is a file whose
  bytes decode to the text \<open>t\<close>, and \<open>Undecodable\<close> is a file whose bytes the codec of
  the platform rejects when reading starts, which raises \<open>UnicodeDecodeError\<close>. Every
  string of the model can be written (as with UTF-8). \<open>None\<close> for the file means that
  there is none. Opening the file for reading or for writing is granted or fails with
  \<open>PermissionError\<close> or another \<open>IOError\<close>. The lines typed by the user are passed
  separately; every \<open>input\<close> writes its prompt and takes the first line, and \<open>EOFError\<close>
  is what Python raises when none is left. \<open>stdout\<close> lists the texts written, prompts
  included.
\<close>

datatype file_content = Text string | Undecodable

datatype access = Granted | Permission_denied | Io_failure string

record state =
  contacts :: "contact list"
  contacts_file :: "file_content option"
  read_access :: access
  write_access :: access
  stdout :: "string list"

text \<open>
  An operation returns \<open>Inr\<close> of its result, or \<open>Inl\<close> of the exception that leaves it
  together with the state (and, where it reads lines, the lines left) at that moment.
\<close>

definition apostrophe :: char where
  "apostrophe = CHR 0x27"

definition print :: "string \<Rightarrow> state \<Rightarrow> state" where
  "print text s = s\<lparr>stdout := stdout s @ [text]\<rparr>"

text \<open>A value inside an f-string: \<open>None\<close> is shown as the word \<open>None\<close>.\<close>

definition py_str :: "string option \<Rightarrow> string" where
  "py_str v = (case v of None \<Rightarrow> ''None'' | Some x \<Rightarrow> x)"

subsection \<open>Loading\<close>

text \<open>
  The dictionary that \<open>csv.DictReader\<close> makes of a row when the field names are
  \<open>FIELDNAMES\<close>.
\<close>

definition field_at :: "string list \<Rightarrow> nat \<Rightarrow> string option" where
  "field_at row i = (if i < length row then Some (row ! i) else None)"

definition dict_row :: "string list \<Rightarrow> contact" where
  "dict_row row =
     \<lparr>first_name = field_at row 0, middle_name = field_at row 1, last_name = field_at row 2,
      number = field_at row 3, email = field_at row 4,
      restkey = (if 5 < length row then Some (drop 5 row) else None)\<rparr>"

definition invalid_format :: string where
  "invalid_format = ''Invalid CSV format. Expected headers: '' @ py_join '', '' FIELDNAMES"

text \<open>
  \<open>reader.fieldnames\<close> is the first record of the file, \<open>None\<close> when the file has no
  record; reading it can raise.
\<close>

definition fieldnames :: "string \<Rightarrow> error + string list option" where
  "fieldnames t =
     (case reader_rows parse_reset t of
        ([], None) \<Rightarrow> Inr None
      | ([], Some e) \<Rightarrow> Inl e
      | (header # rows, stop) \<Rightarrow> Inr (Some header))"

text \<open>
  The loop \<open>for row in reader\<close> appends the dictionary of every further record that is
  not empty. \<open>load_contacts\<close> handles \<open>FileNotFoundError\<close>, \<open>PermissionError\<close> and
  \<open>IOError\<close>; what the decoding of the file or the \<open>csv\<close> reader raises leaves it, after
  the contacts of the records before.
\<close>

definition load_contacts :: "state \<Rightarrow> (error \<times> state) + state" where
  "load_contacts s0 =
     (let s = s0\<lparr>contacts := []\<rparr>
      in case contacts_file s of
           None \<Rightarrow> Inr s
         | Some f \<Rightarrow>
             (case read_access s of
                Permission_denied \<Rightarrow>
                  Inr (print (''Error: Permission denied when reading '' @ [apostrophe]
                         @ ''contact list/contact.csv'' @ [apostrophe]
                         @ ''. Close any programs using the file.'') s)
              | Io_failure e \<Rightarrow> Inr (print (''Error loading CSV: '' @ e) s)
              | Granted \<Rightarrow>
                  (case f of
                     Undecodable \<Rightarrow> Inl (UnicodeDecodeError, s)
                   | Text t \<Rightarrow>
                       (case fieldnames t of
                          Inl e \<Rightarrow> Inl (e, s)
                        | Inr header \<Rightarrow>
                            if header \<noteq> Some FIELDNAMES then Inr (print invalid_format s)
                            else let rows = tl (fst (reader_rows parse_reset t));
                                     s1 = s\<lparr>contacts := map dict_row (filter (\<lambda>r. r \<noteq> []) rows)\<rparr>
                                 in (case snd (reader_rows parse_reset t) of
                                       None \<Rightarrow> Inr s1
                                     | Some e \<Rightarrow> Inl (e, s1))))))"

subsection \<open>Saving\<close>

text \<open>
  \<open>csv.DictWriter\<close> raises \<open>ValueError\<close> on a dictionary with a key that is not a field
  name, here the key \<open>None\<close>; the rows before it have been written by then. The result
  of \<open>writerows\<close> is the text written and the exception, if any.
\<close>

definition contact_row :: "contact \<Rightarrow> string option list" where
  "contact_row c = [first_name c, middle_name c, last_name c, number c, email c]"

definition writeheader :: string where
  "writeheader = writerow (map Some FIELDNAMES)"

fun writerows :: "contact list \<Rightarrow> string \<times> error option" where
  "writerows [] = ([], None)"
| "writerows (c # cs) =
     (if restkey c \<noteq> None then ([], Some ValueError)
      else (writerow (contact_row c) @ fst (writerows cs), snd (writerows cs)))"

text \<open>
  Opening the file for writing empties it. \<open>save_contacts\<close> handles \<open>PermissionError\<close>
  and \<open>IOError\<close>; the \<open>ValueError\<close> of the writer leaves it, and the file then holds the
  header and the rows written before.
\<close>

definition save_contacts :: "state \<Rightarrow> (error \<times> state) + state" where
  "save_contacts s =
     (case write_access s of
        Granted \<Rightarrow>
          (let written = s\<lparr>contacts_file :=
                             Some (Text (writeheader @ fst (writerows (contacts s))))\<rparr>
           in case snd (writerows (contacts s)) of
                None \<Rightarrow> Inr (print ''Changes saved.'' written)
              | Some e \<Rightarrow> Inl (e, written))
      | Permission_denied \<Rightarrow>
          Inr (print (''Error: Permission denied when saving to '' @ [apostrophe]
                 @ ''contact list/contact.csv'' @ [apostrophe]
                 @ ''. Close any programs using the file.'') s)
      | Io_failure e \<Rightarrow> Inr (print (''Error saving to CSV: '' @ e) s))"

subsection \<open>Names and tables\<close>

definition full_name :: "contact \<Rightarrow> string" where
  "full_name c =
     py_strip (py_str (first_name c) @ '' '' @ py_str (middle_name c) @ '' ''
               @ py_str (last_name c))"

text \<open>The key of the duplicate check of \<open>add_contact\<close> and of every sorted listing.\<close>

definition name_key :: "contact \<Rightarrow> string" where
  "name_key c = py_lower (full_name c)"

definition format_row :: "string \<Rightarrow> string \<Rightarrow> string \<Rightarrow> string \<Rightarrow> string" where
  "format_row a b c d = ljust 4 a @ '' '' @ ljust 27 b @ '' '' @ ljust 15 c @ '' '' @ ljust 30 d"

text \<open>
  A row of the table. The format field \<open>{:<15}\<close> raises \<open>TypeError\<close> on \<open>None\<close>, so the
  row of a contact without a number or without an email is not written.
\<close>

fun print_rows :: "nat \<Rightarrow> contact list \<Rightarrow> state \<Rightarrow> (error \<times> state) + state" where
  "print_rows i [] s = Inr s"
| "print_rows i (c # cs) s =
     (case number c of
        None \<Rightarrow> Inl (TypeError, s)
      | Some n \<Rightarrow>
          (case email c of
             None \<Rightarrow> Inl (TypeError, s)
           | Some e \<Rightarrow>
               print_rows (Suc i) cs (print (format_row (str_nat i @ ''.'') (full_name c) n e) s)))"

definition print_contacts :: "contact list \<Rightarrow> state \<Rightarrow> (error \<times> state) + state" where
  "print_contacts contact_list s =
     (if contact_list = [] then Inr (print ''No contacts to display.'' s)
      else case print_rows 1 contact_list
                  (print (line_feed # format_row [] ''Name'' ''Number'' ''Email'') s) of
             Inl raised \<Rightarrow> Inl raised
           | Inr s1 \<Rightarrow> Inr (print [] s1))"

text \<open>The numbered list of names that View, Delete and Edit show.\<close>

fun print_names :: "nat \<Rightarrow> contact list \<Rightarrow> state \<Rightarrow> state" where
  "print_names i [] s = s"
| "print_names i (c # cs) s =
     print_names (Suc i) cs (print (str_nat i @ ''. '' @ full_name c) s)"

section \<open>Add\<close>

text \<open>
  The three name loops of \<open>add_contact\<close> differ in the prompt, in \<open>allow_blank\<close> and in
  the message; they are one function here. A loop that leaves \<open>add_contact\<close> through
  \<open>return\<close> answers \<open>None\<close>.
\<close>

fun name_loop ::
  "string \<Rightarrow> bool \<Rightarrow> string \<Rightarrow> string list \<Rightarrow> state
   \<Rightarrow> (error \<times> string list \<times> state) + (string \<times> string list \<times> state)"
where
  "name_loop prompt allow_blank complaint [] s = Inl (EOFError, [], print prompt s)"
| "name_loop prompt allow_blank complaint (l # ls) s =
     (case py_title (py_strip l) of
        None \<Rightarrow> Inl (Beyond_latin1, ls, print prompt s)
      | Some name \<Rightarrow>
          if \<not> validate_name name allow_blank
          then name_loop prompt allow_blank complaint ls (print complaint (print prompt s))
          else Inr (name, ls, print prompt s))"

fun add_number_loop ::
  "string list \<Rightarrow> state
   \<Rightarrow> (error \<times> string list \<times> state) + (string option \<times> string list \<times> state)"
where
  "add_number_loop [] s = Inl (EOFError, [], print ''Enter phone number: '' s)"
| "add_number_loop (l # ls) s =
     (let s1 = print ''Enter phone number: '' s; new_number = py_strip l
      in if \<not> validate_number new_number False
         then add_number_loop ls (print ''Invalid phone number. Must be exactly 10 digits.'' s1)
         else if list_ex (\<lambda>c. number c = Some new_number) (contacts s1)
         then Inr (None, ls, print ''This phone number already exists.'' s1)
         else Inr (Some new_number, ls, s1))"

text \<open>
  \<open>any(contact["email"].lower() == e.lower() and other(contact) for contact in
  contacts)\<close>: the contacts are tried in their order, and \<open>.lower()\<close> on the value \<open>None\<close>
  raises \<open>AttributeError\<close>. In \<open>add_contact\<close> there is no second condition.
\<close>

fun email_in_use :: "(contact \<Rightarrow> bool) \<Rightarrow> string \<Rightarrow> contact list \<Rightarrow> error + bool" where
  "email_in_use other e [] = Inr False"
| "email_in_use other e (c # cs) =
     (case email c of
        None \<Rightarrow> Inl AttributeError
      | Some x \<Rightarrow>
          if py_lower x = py_lower e \<and> other c then Inr True else email_in_use other e cs)"

fun add_email_loop ::
  "string list \<Rightarrow> state
   \<Rightarrow> (error \<times> string list \<times> state) + (string option \<times> string list \<times> state)"
where
  "add_email_loop [] s = Inl (EOFError, [], print ''Enter email: '' s)"
| "add_email_loop (l # ls) s =
     (let s1 = print ''Enter email: '' s; new_email = py_strip l
      in if \<not> validate_email new_email False
         then add_email_loop ls (print ''Invalid email format.'' s1)
         else case email_in_use (\<lambda>c. True) new_email (contacts s1) of
                Inl e \<Rightarrow> Inl (e, ls, s1)
              | Inr True \<Rightarrow> Inr (None, ls, print ''This email already exists.'' s1)
              | Inr False \<Rightarrow> Inr (Some new_email, ls, s1))"

definition add_contact ::
  "string list \<Rightarrow> state \<Rightarrow> (error \<times> string list \<times> state) + (string list \<times> state)"
where
  "add_contact inp s =
     (case name_loop ''Enter first name: '' False
             ''Invalid first name. Use alphabetic characters only.'' inp
             (print (line_feed # ''--- Add Contact ---'') s) of
        Inl raised \<Rightarrow> Inl raised
      | Inr (fname, inp1, s1) \<Rightarrow>
     (case name_loop ''Enter middle name (press Enter to skip): '' True
             ''Invalid middle name. Use alphabetic characters only.'' inp1 s1 of
        Inl raised \<Rightarrow> Inl raised
      | Inr (mname, inp2, s2) \<Rightarrow>
     (case name_loop ''Enter last name: '' False
             ''Invalid last name. Use alphabetic characters only.'' inp2 s2 of
        Inl raised \<Rightarrow> Inl raised
      | Inr (lname, inp3, s3) \<Rightarrow>
     (let full = py_strip (fname @ '' '' @ mname @ '' '' @ lname);
          existing_names = map name_key (contacts s3)
      in if py_lower full \<in> set existing_names
         then Inr (inp3, print ''This contact name already exists.'' s3)
         else
     (case add_number_loop inp3 s3 of
        Inl raised \<Rightarrow> Inl raised
      | Inr (None, inp4, s4) \<Rightarrow> Inr (inp4, s4)
      | Inr (Some new_number, inp4, s4) \<Rightarrow>
     (case add_email_loop inp4 s4 of
        Inl raised \<Rightarrow> Inl raised
      | Inr (None, inp5, s5) \<Rightarrow> Inr (inp5, s5)
      | Inr (Some new_email, inp5, s5) \<Rightarrow>
     (case save_contacts
             (s5\<lparr>contacts := contacts s5 @
                  [\<lparr>first_name = Some fname, middle_name = Some mname, last_name = Some lname,
                    number = Some new_number, email = Some new_email, restkey = None\<rparr>]\<rparr>) of
        Inl (e, s6) \<Rightarrow> Inl (e, inp5, s6)
      | Inr s6 \<Rightarrow>
          Inr (inp5,
               print (''Contact '' @ [apostrophe] @ full @ [apostrophe]
                      @ '' added successfully!'') s6))))))))"

section \<open>View\<close>

fun view_loop ::
  "contact list \<Rightarrow> string list \<Rightarrow> state
   \<Rightarrow> (error \<times> string list \<times> state) + (string list \<times> state)"
where
  "view_loop sorted_contacts [] s =
     Inl (EOFError, [], print (line_feed # ''Enter the index of the contact to view details: '') s)"
| "view_loop sorted_contacts (l # ls) s =
     (let s1 = print (line_feed # ''Enter the index of the contact to view details: '') s
      in case py_int l of
           None \<Rightarrow> view_loop sorted_contacts ls (print ''Please enter a valid number.'' s1)
         | Some choice \<Rightarrow>
             if 1 \<le> choice \<and> choice \<le> int (length sorted_contacts)
             then (case print_contacts [sorted_contacts ! nat (choice - 1)] s1 of
                     Inl (e, s2) \<Rightarrow> Inl (e, ls, s2)
                   | Inr s2 \<Rightarrow> Inr (ls, s2))
             else view_loop sorted_contacts ls (print ''Invalid index.'' s1))"

definition view_contacts ::
  "string list \<Rightarrow> state \<Rightarrow> (error \<times> string list \<times> state) + (string list \<times> state)"
where
  "view_contacts inp s =
     (if contacts s = [] then Inr (inp, print ''No contacts to display.'' s)
      else let sorted_contacts = sort_key name_key (contacts s)
           in view_loop sorted_contacts inp
                (print_names 1 sorted_contacts (print (line_feed # ''Contacts:'') s)))"

section \<open>Delete\<close>

text \<open>
  \<open>contacts.remove(contact)\<close> removes the first dictionary equal to \<open>contact\<close> and raises
  \<open>ValueError\<close> when there is none. The body of the loop is inside \<open>try\<close>: a
  \<open>ValueError\<close>, also the one that \<open>save_contacts\<close> lets through, is answered with the
  message for an input that is not a number, and the loop goes on.
\<close>

fun delete_loop ::
  "contact list \<Rightarrow> string list \<Rightarrow> state
   \<Rightarrow> (error \<times> string list \<times> state) + (string list \<times> state)"
where
  "delete_loop sorted_contacts [] s =
     Inl (EOFError, [], print ''Enter the index of the contact to delete: '' s)"
| "delete_loop sorted_contacts (l # ls) s =
     (let s1 = print ''Enter the index of the contact to delete: '' s
      in case py_int l of
           None \<Rightarrow> delete_loop sorted_contacts ls (print ''Invalid input. Please enter a number.'' s1)
         | Some choice \<Rightarrow>
             if 1 \<le> choice \<and> choice \<le> int (length sorted_contacts)
             then (let contact = sorted_contacts ! nat (choice - 1);
                       full = full_name contact;
                       s2 = print (''Are you sure you want to delete '' @ full @ [apostrophe]
                                   @ ''s contact? (y/n): '') s1
                   in case ls of
                        [] \<Rightarrow> Inl (EOFError, [], s2)
                      | answer # rest \<Rightarrow>
                          if py_lower (py_strip answer) = ''y''
                          then (if contact \<notin> set (contacts s2)
                                then delete_loop sorted_contacts rest
                                       (print ''Invalid input. Please enter a number.'' s2)
                                else case save_contacts
                                            (s2\<lparr>contacts := remove1 contact (contacts s2)\<rparr>) of
                                       Inl (e, s3) \<Rightarrow>
                                         if e = ValueError
                                         then delete_loop sorted_contacts rest
                                                (print ''Invalid input. Please enter a number.'' s3)
                                         else Inl (e, rest, s3)
                                     | Inr s3 \<Rightarrow>
                                         Inr (rest,
                                              print (''Contact for '' @ full
                                                     @ '' deleted successfully.'') s3))
                          else Inr (rest, print ''Deletion cancelled.'' s2))
             else delete_loop sorted_contacts ls (print ''Invalid index.'' s1))"

definition delete_contact ::
  "string list \<Rightarrow> state \<Rightarrow> (error \<times> string list \<times> state) + (string list \<times> state)"
where
  "delete_contact inp s =
     (if contacts s = [] then Inr (inp, print ''No contacts to delete.'' s)
      else let sorted_contacts = sort_key name_key (contacts s)
           in delete_loop sorted_contacts inp
                (print_names 1 sorted_contacts (print (line_feed # ''Contacts:'') s)))"

section \<open>Edit\<close>

text \<open>
  \<open>sorted\<close> builds a new list of the same dictionaries, and Edit changes the chosen one
  in place: the change reaches the entry of \<open>contacts\<close> that the chosen line of the
  listing came from. So Edit sorts the positions of \<open>contacts\<close> (a stable sort, as
  Python's) and \<open>contact_to_edit\<close> is a position \<open>p\<close>.
\<close>

definition sorted_positions :: "contact list \<Rightarrow> nat list" where
  "sorted_positions cs = sort_key (\<lambda>i. name_key (cs ! i)) [0..<length cs]"

definition set_field :: "nat \<Rightarrow> (contact \<Rightarrow> contact) \<Rightarrow> state \<Rightarrow> state" where
  "set_field p f s = s\<lparr>contacts := (contacts s)[p := f (contacts s ! p)]\<rparr>"

text \<open>
  The end of every branch that stores a value: \<open>save_contacts()\<close> and then the message
  of the branch.
\<close>

definition save_and_report :: "string \<Rightarrow> state \<Rightarrow> (error \<times> state) + state" where
  "save_and_report message s =
     (case save_contacts s of
        Inl raised \<Rightarrow> Inl raised
      | Inr s1 \<Rightarrow> Inr (print message s1))"

text \<open>
  Every branch for a field shows the current value and asks for the new one;
  \<open>ask_field\<close> is what the console holds when the line with the new value is read. In
  \<open>contact_to_edit['middle_name'] or '(empty)'\<close> both \<open>None\<close> and the empty string are
  false.
\<close>

definition ask_field :: "int \<Rightarrow> nat \<Rightarrow> state \<Rightarrow> state" where
  "ask_field option p s =
     (let c = contacts s ! p
      in if option = 1
         then print ''Enter new first name: ''
                (print (''Current first name: '' @ py_str (first_name c)) s)
         else if option = 2
         then print ''Enter new middle name: ''
                (print (''Current middle name: ''
                        @ (if middle_name c = None \<or> middle_name c = Some [] then ''(empty)''
                           else py_str (middle_name c))) s)
         else if option = 3
         then print ''Enter new last name: ''
                (print (''Current last name: '' @ py_str (last_name c)) s)
         else if option = 4
         then print ''Enter new number: ''
                (print (''Current number: '' @ py_str (number c)) s)
         else print ''Enter new email: ''
                (print (''Current email: '' @ py_str (email c)) s))"

definition edit_first_name :: "nat \<Rightarrow> string \<Rightarrow> state \<Rightarrow> (error \<times> state) + state" where
  "edit_first_name p answer s =
     (let s1 = ask_field 1 p s
      in case py_title (py_strip answer) of
           None \<Rightarrow> Inl (Beyond_latin1, s1)
         | Some new_first \<Rightarrow>
             if validate_name new_first False
             then save_and_report ''First name updated.''
                    (set_field p (\<lambda>c. c\<lparr>first_name := Some new_first\<rparr>) s1)
             else Inr (print ''Invalid first name.'' s1))"

definition edit_middle_name :: "nat \<Rightarrow> string \<Rightarrow> state \<Rightarrow> (error \<times> state) + state" where
  "edit_middle_name p answer s =
     (let s1 = ask_field 2 p s
      in case py_title (py_strip answer) of
           None \<Rightarrow> Inl (Beyond_latin1, s1)
         | Some new_middle \<Rightarrow>
             if new_middle = [] \<or> validate_name new_middle False
             then save_and_report ''Middle name updated.''
                    (set_field p (\<lambda>c. c\<lparr>middle_name := Some new_middle\<rparr>) s1)
             else Inr (print ''Invalid middle name.'' s1))"

definition edit_last_name :: "nat \<Rightarrow> string \<Rightarrow> state \<Rightarrow> (error \<times> state) + state" where
  "edit_last_name p answer s =
     (let s1 = ask_field 3 p s
      in case py_title (py_strip answer) of
           None \<Rightarrow> Inl (Beyond_latin1, s1)
         | Some new_last \<Rightarrow>
             if validate_name new_last False
             then save_and_report ''Last name updated.''
                    (set_field p (\<lambda>c. c\<lparr>last_name := Some new_last\<rparr>) s1)
             else Inr (print ''Invalid last name.'' s1))"

text \<open>
  In the two checks below \<open>contact != contact_to_edit\<close> compares the dictionaries by
  their contents. After either \<open>continue\<close> the loop starts again at the menu.
\<close>

definition edit_number :: "nat \<Rightarrow> string \<Rightarrow> state \<Rightarrow> (error \<times> state) + state" where
  "edit_number p answer s =
     (let s1 = ask_field 4 p s;
          new_number = py_strip answer
      in if \<not> validate_number new_number False
         then Inr (print ''Invalid number! Must be exactly 10 digits.'' s1)
         else if list_ex (\<lambda>c. number c = Some new_number \<and> c \<noteq> contacts s1 ! p) (contacts s1)
         then Inr (print ''This phone number already exists.'' s1)
         else save_and_report ''Number updated.''
                (set_field p (\<lambda>c. c\<lparr>number := Some new_number\<rparr>) s1))"

definition edit_email :: "nat \<Rightarrow> string \<Rightarrow> state \<Rightarrow> (error \<times> state) + state" where
  "edit_email p answer s =
     (let s1 = ask_field 5 p s;
          new_email = py_strip answer
      in if \<not> validate_email new_email False
         then Inr (print ''Invalid email format.'' s1)
         else case email_in_use (\<lambda>c. c \<noteq> contacts s1 ! p) new_email (contacts s1) of
                Inl e \<Rightarrow> Inl (e, s1)
              | Inr True \<Rightarrow> Inr (print ''This email already exists.'' s1)
              | Inr False \<Rightarrow>
                  save_and_report ''Email updated.''
                    (set_field p (\<lambda>c. c\<lparr>email := Some new_email\<rparr>) s1))"

definition edit_menu_lines :: "string list" where
  "edit_menu_lines =
     [line_feed # ''Choose what to edit:'', ''1. First name'', ''2. Middle name'',
      ''3. Last name'', ''4. Number'', ''5. Email'', ''6. Done'']"

definition edit_menu :: "state \<Rightarrow> state" where
  "edit_menu s = foldl (\<lambda>s' text. print text s') s edit_menu_lines"

text \<open>
  The branches 1 to 5 read one more line, the new value. \<open>edit_field\<close> is the branch for
  the option.
\<close>

definition edit_field :: "int \<Rightarrow> nat \<Rightarrow> string \<Rightarrow> state \<Rightarrow> (error \<times> state) + state" where
  "edit_field option p answer s =
     (if option = 1 then edit_first_name p answer s
      else if option = 2 then edit_middle_name p answer s
      else if option = 3 then edit_last_name p answer s
      else if option = 4 then edit_number p answer s
      else edit_email p answer s)"

fun edit_loop ::
  "nat \<Rightarrow> string list \<Rightarrow> state
   \<Rightarrow> (error \<times> string list \<times> state) + (string list \<times> state)"
where
  "edit_loop p [] s = Inl (EOFError, [], print ''Enter choice: '' (edit_menu s))"
| "edit_loop p (l # ls) s =
     (let s1 = print ''Enter choice: '' (edit_menu s)
      in case py_int l of
           None \<Rightarrow> edit_loop p ls (print ''Enter a valid option!'' s1)
         | Some option \<Rightarrow>
             if 1 \<le> option \<and> option \<le> 5 then
               (case ls of
                  [] \<Rightarrow> Inl (EOFError, [], ask_field option p s1)
                | answer # rest \<Rightarrow>
                    (case edit_field option p answer s1 of
                       Inl (e, s2) \<Rightarrow> Inl (e, rest, s2)
                     | Inr s2 \<Rightarrow> edit_loop p rest s2))
             else if option = 6 then
               (case save_and_report ''Finished editing contact.'' s1 of
                  Inl (e, s2) \<Rightarrow> Inl (e, ls, s2)
                | Inr s2 \<Rightarrow> Inr (ls, s2))
             else edit_loop p ls (print ''Invalid option. Try again.'' s1))"

text \<open>
  The whole of \<open>edit_contact\<close> after the listing is inside \<open>try\<close>: a \<open>ValueError\<close>, from
  the index typed or from \<open>save_contacts\<close> at any later point, is answered with the
  message for an input that is not a number, and \<open>edit_contact\<close> returns.
\<close>

definition edit_contact ::
  "string list \<Rightarrow> state \<Rightarrow> (error \<times> string list \<times> state) + (string list \<times> state)"
where
  "edit_contact inp s =
     (if contacts s = [] then Inr (inp, print ''No contacts to edit.'' s)
      else let positions = sorted_positions (contacts s);
               s1 = print_names 1 (map (\<lambda>i. contacts s ! i) positions)
                      (print (line_feed # ''Contacts:'') s);
               s2 = print ''Enter the index of the contact to edit: '' s1
           in case inp of
                [] \<Rightarrow> Inl (EOFError, [], s2)
              | l # ls \<Rightarrow>
                  (case py_int l of
                     None \<Rightarrow> Inr (ls, print ''Invalid input. Please enter a number.'' s2)
                   | Some choice \<Rightarrow>
                       if 1 \<le> choice \<and> choice \<le> int (length positions)
                       then (case edit_loop (positions ! nat (choice - 1)) ls s2 of
                               Inl (e, rest, s3) \<Rightarrow>
                                 if e = ValueError
                                 then Inr (rest,
                                        print ''Invalid input. Please enter a number.'' s3)
                                 else Inl (e, rest, s3)
                             | Inr finished \<Rightarrow> Inr finished)
                       else Inr (ls, print ''Invalid index.'' s2)))"

section \<open>The specification's words\<close>

text \<open>
  The specification says of \<open>validate_number\<close>: exactly 10 characters, all decimal
  digits.
\<close>

definition spec_validate_number :: "string \<Rightarrow> bool" where
  "spec_validate_number s = (length s = 10 \<and> list_all py_isdecimal_char s)"

text \<open>
  And of \<open>validate_email\<close>: a local part, \<open>@\<close>, a domain and, after the last dot, a
  final segment that is not empty; the local part and the segments of the domain are
  made of letters, digits, dots, underscores and hyphens. Letters, digits and the
  underscore are read as the pattern's \<open>\w\<close>.
\<close>

definition spec_validate_email :: "string \<Rightarrow> bool" where
  "spec_validate_email s =
     (\<exists>local domain tld.
        s = local @ ''@'' @ domain @ ''.'' @ tld
        \<and> local \<noteq> [] \<and> list_all word_dot_hyphen local
        \<and> domain \<noteq> [] \<and> list_all word_dot_hyphen domain
        \<and> tld \<noteq> [] \<and> list_all word_dot_hyphen tld \<and> CHR ''.'' \<notin> set tld)"

text \<open>
  The listings are sorted by the full name without regard to case: a capital letter
  counts as its small letter. The capital letters below code point 256 are \<open>A\<close> to \<open>Z\<close>
  and the letters 192 to 222 of Latin-1 except the multiplication sign (215); the
  small letter is 32 code points further.
\<close>

definition capital_letters :: string where
  "capital_letters =
     ''ABCDEFGHIJKLMNOPQRSTUVWXYZ'' @ map char_of [192..<215] @ map char_of [216..<223]"

definition small_letter :: "char \<Rightarrow> char" where
  "small_letter c = (if c \<in> set capital_letters then char_of (of_char c + (32::nat)) else c)"

text \<open>
  The detail row is a table of four columns, 4, 27, 15 and 30 characters wide, with a
  blank between two columns; a text shorter than its column is followed by blanks.
\<close>

definition column :: "nat \<Rightarrow> string \<Rightarrow> string" where
  "column width x = x @ replicate (width - length x) (CHR '' '')"

definition table_line :: "string \<Rightarrow> string \<Rightarrow> string \<Rightarrow> string \<Rightarrow> string" where
  "table_line a b c d =
     column 4 a @ '' '' @ column 27 b @ '' '' @ column 15 c @ '' '' @ column 30 d"

section \<open>What the console and the file show\<close>

text \<open>
  The texts below are what the operations write; the theorems name them to say what a
  run leaves on the console and in the file.
\<close>

text \<open>The file after a save that wrote every contact.\<close>

definition csv_text :: "contact list \<Rightarrow> string" where
  "csv_text cs = writeheader @ concat (map (\<lambda>c. writerow (contact_row c)) cs)"

text \<open>
  A contact that the file gives back as it is: it has no key besides the five field
  names, and each of its values is a string of at most \<open>field_limit\<close> characters.
\<close>

definition storable :: "contact \<Rightarrow> bool" where
  "storable c =
     (restkey c = None
      \<and> list_all (\<lambda>v. case v of None \<Rightarrow> False | Some x \<Rightarrow> int (length x) \<le> field_limit)
           (contact_row c))"

definition name_lines :: "nat \<Rightarrow> contact list \<Rightarrow> string list" where
  "name_lines i cs = map (\<lambda>(j, c). str_nat j @ ''. '' @ full_name c) (enumerate i cs)"

definition detail_lines :: "string \<Rightarrow> string \<Rightarrow> string \<Rightarrow> string list" where
  "detail_lines name n e =
     [line_feed # table_line [] ''Name'' ''Number'' ''Email'', table_line ''1.'' name n e, []]"

text \<open>
  A line that does not select an entry of a listing of \<open>n\<close> contacts: \<open>int\<close> rejects
  it, or the number is not between 1 and \<open>n\<close>.
\<close>

definition invalid_index :: "nat \<Rightarrow> string \<Rightarrow> bool" where
  "invalid_index n l = (case py_int l of None \<Rightarrow> True | Some k \<Rightarrow> k < 1 \<or> int n < k)"

definition view_prompt :: string where
  "view_prompt = line_feed # ''Enter the index of the contact to view details: ''"

definition view_retry :: "string \<Rightarrow> string list" where
  "view_retry l =
     [view_prompt,
      if py_int l = None then ''Please enter a valid number.'' else ''Invalid index.'']"

definition delete_prompt :: string where
  "delete_prompt = ''Enter the index of the contact to delete: ''"

definition delete_retry :: "string \<Rightarrow> string list" where
  "delete_retry l =
     [delete_prompt,
      if py_int l = None then ''Invalid input. Please enter a number.'' else ''Invalid index.'']"

definition confirm_prompt :: "contact \<Rightarrow> string" where
  "confirm_prompt c =
     ''Are you sure you want to delete '' @ full_name c @ [apostrophe] @ ''s contact? (y/n): ''"

definition edit_prompt :: string where
  "edit_prompt = ''Enter the index of the contact to edit: ''"

subsection \<open>An address book to run the operations on\<close>

definition ann :: contact where
  "ann = \<lparr>first_name = Some ''Ann'', middle_name = Some [], last_name = Some ''Lee'',
          number = Some ''5550001111'', email = Some ''ann@mail.example.org'',
          restkey = None\<rparr>"

definition bob :: contact where
  "bob = \<lparr>first_name = Some ''Bob'', middle_name = Some ''Ray'', last_name = Some ''Lee'',
          number = Some ''5550002222'', email = Some ''bob@mail.example.org'',
          restkey = None\<rparr>"

definition address_book :: state where
  "address_book =
     \<lparr>contacts = [bob, ann], contacts_file = Some (Text (csv_text [bob, ann])),
      read_access = Granted, write_access = Granted, stdout = []\<rparr>"

text \<open>The same contacts in memory, beside a file that some other program wrote.\<close>

definition foreign_text :: string where
  "foreign_text =
     ''name,phone'' @ [carriage_return, line_feed]
     @ ''Ann Lee,5550001111'' @ [carriage_return, line_feed]"

definition foreign_book :: state where
  "foreign_book = address_book\<lparr>contacts_file := Some (Text foreign_text)\<rparr>"

text \<open>
  A file whose first field is one character longer than the reader accepts, and a
  contact with a first name of that length.
\<close>

definition wide_text :: string where
  "wide_text =
     replicate (Suc (nat field_limit)) (CHR ''x'') @ '',phone'' @ [carriage_return, line_feed]"

definition wide_book :: state where
  "wide_book = address_book\<lparr>contacts_file := Some (Text wide_text)\<rparr>"

definition long_name :: string where
  "long_name = CHR ''A'' # replicate (nat field_limit) (CHR ''a'')"

definition ann_long :: contact where
  "ann_long = ann\<lparr>first_name := Some long_name\<rparr>"

definition long_book :: state where
  "long_book = address_book\<lparr>contacts := [bob, ann_long]\<rparr>"
section \<open>What the validators accept\<close>

lemma isdigit_ascii:
  "list_all (\<lambda>c. code c < 128) s \<Longrightarrow> list_all py_isdigit_char s = list_all py_isdecimal_char s"
  by (induction s) (auto simp: py_isdigit_char_def between_def)

text \<open>
  Claim C3, as amended. For every string \<open>s\<close> (of code points below 256),
  \<open>validate_number(s)\<close> is true if and only if \<open>s\<close> has exactly 10 characters and every
  one of them is a digit in the sense of \<open>str.isdigit\<close>: a decimal digit \<open>0\<close> to \<open>9\<close> or
  one of the superscripts one, two and three. On strings of ASCII characters this is
  the specification's wording: exactly 10 decimal digits. It is false for \<open>12345\<close>,
  \<open>12345678901\<close> and \<open>12345abcde\<close> and true for \<open>0123456789\<close>.
\<close>

theorem validate_number_isdigit:
  "(validate_number s False \<longleftrightarrow> length s = 10 \<and> list_all py_isdigit_char s)
   \<and> (list_all (\<lambda>c. code c < 128) s \<longrightarrow> validate_number s False = spec_validate_number s)
   \<and> \<not> validate_number ''12345'' False
   \<and> \<not> validate_number ''12345678901'' False
   \<and> \<not> validate_number ''12345abcde'' False
   \<and> validate_number ''0123456789'' False"
proof -
  have general: "validate_number s False \<longleftrightarrow> length s = 10 \<and> list_all py_isdigit_char s"
    by (auto simp: validate_number_def py_isdigit_def)
  have ascii: "list_all (\<lambda>c. code c < 128) s \<longrightarrow> validate_number s False = spec_validate_number s"
    using general isdigit_ascii [of s] by (auto simp: spec_validate_number_def)
  have short: "\<not> validate_number ''12345'' False" by code_simp
  have long: "\<not> validate_number ''12345678901'' False" by code_simp
  have letters: "\<not> validate_number ''12345abcde'' False" by code_simp
  have good: "validate_number ''0123456789'' False" by code_simp
  from general ascii short long letters good show ?thesis by blast
qed

theorem validate_number_isdigit_witness:
  "list_all (\<lambda>c. code c < 128) ''5550001234''
   \<and> validate_number ''5550001234'' False \<and> spec_validate_number ''5550001234''"
proof -
  have a: "list_all (\<lambda>c. code c < 128) ''5550001234''" by code_simp
  have b: "spec_validate_number ''5550001234''" by code_simp
  from a b validate_number_isdigit [of "''5550001234''"] show ?thesis by blast
qed

text \<open>
  Claim C3 as it is stated fails on ten superscript twos (code point 178): they are
  ten characters, none of them a decimal digit, and \<open>validate_number\<close> accepts them.
\<close>

theorem validate_number_superscript_counterexample:
  "validate_number (replicate 10 (CHR 0xB2)) False
   \<and> \<not> spec_validate_number (replicate 10 (CHR 0xB2))"
  by code_simp

subsection \<open>What the pattern matches\<close>

lemma re_match_Lit:
  "re_match (Lit c # p) s = (\<exists>v. s = c # v \<and> re_match p v)"
  by (cases s) auto

lemma re_match_OneOrMore:
  "re_match (OneOrMore cls # p) s =
     (\<exists>u v. s = u @ v \<and> u \<noteq> [] \<and> list_all cls u \<and> re_match p v)"
proof (induction s)
  case Nil
  then show ?case by simp
next
  case (Cons x xs)
  show ?case
  proof
    assume m: "re_match (OneOrMore cls # p) (x # xs)"
    then have x: "cls x" by simp
    from m consider "re_match (OneOrMore cls # p) xs" | "re_match p xs" by auto
    then show "\<exists>u v. x # xs = u @ v \<and> u \<noteq> [] \<and> list_all cls u \<and> re_match p v"
    proof cases
      case 1
      with Cons.IH obtain u v where "xs = u @ v" "list_all cls u" "re_match p v" by blast
      with x have "x # xs = (x # u) @ v \<and> x # u \<noteq> [] \<and> list_all cls (x # u) \<and> re_match p v"
        by simp
      then show ?thesis by blast
    next
      case 2
      with x have "x # xs = [x] @ xs \<and> [x] \<noteq> [] \<and> list_all cls [x] \<and> re_match p xs"
        by simp
      then show ?thesis by blast
    qed
  next
    assume "\<exists>u v. x # xs = u @ v \<and> u \<noteq> [] \<and> list_all cls u \<and> re_match p v"
    then obtain u v where s: "x # xs = u @ v" and ne: "u \<noteq> []"
      and cu: "list_all cls u" and mv: "re_match p v" by blast
    from ne obtain u' where u: "u = x # u'" using s by (cases u) auto
    with s have xs: "xs = u' @ v" by simp
    from cu u have x: "cls x" and cu': "list_all cls u'" by simp_all
    show "re_match (OneOrMore cls # p) (x # xs)"
    proof (cases "u' = []")
      case True
      with xs mv x show ?thesis by simp
    next
      case False
      with xs cu' mv have "re_match (OneOrMore cls # p) xs" using Cons.IH by blast
      with x show ?thesis by simp
    qed
  qed
qed

lemma re_match_EndAnchor: "re_match [EndAnchor] s = (s = [] \<or> s = [line_feed])"
  by simp

text \<open>
  Claim C4, as amended. For every string \<open>s\<close>, \<open>validate_email(s)\<close> is true if and only
  if \<open>s\<close>, or \<open>s\<close> without one line feed at its end, is a local part, \<open>@\<close>, a domain, a
  dot and a final segment, where the local part and the domain are non-empty strings of
  word characters (letters, digits, underscore), dots and hyphens, and the final segment
  is a non-empty string of word characters only: no hyphen and no dot. It is true for
  \<open>x.y-z_1@sub.domain.com\<close> and false for \<open>no-at-sign.com\<close> and for \<open>a@b\<close>.
\<close>

theorem validate_email_shape:
  "(validate_email s False \<longleftrightarrow>
     (\<exists>local domain tld.
        (s = local @ ''@'' @ domain @ ''.'' @ tld
         \<or> s = local @ ''@'' @ domain @ ''.'' @ tld @ [line_feed])
        \<and> local \<noteq> [] \<and> list_all word_dot_hyphen local
        \<and> domain \<noteq> [] \<and> list_all word_dot_hyphen domain
        \<and> tld \<noteq> [] \<and> list_all word_char tld))
   \<and> validate_email ''x.y-z_1@sub.domain.com'' False
   \<and> \<not> validate_email ''no-at-sign.com'' False
   \<and> \<not> validate_email ''a@b'' False"
proof -
  let ?R = "\<exists>local domain tld.
        (s = local @ ''@'' @ domain @ ''.'' @ tld
         \<or> s = local @ ''@'' @ domain @ ''.'' @ tld @ [line_feed])
        \<and> local \<noteq> [] \<and> list_all word_dot_hyphen local
        \<and> domain \<noteq> [] \<and> list_all word_dot_hyphen domain
        \<and> tld \<noteq> [] \<and> list_all word_char tld"
  have general: "validate_email s False \<longleftrightarrow> ?R"
  proof
    assume "validate_email s False"
    then obtain l d t v where "s = l @ CHR ''@'' # d @ CHR ''.'' # t @ v"
      "l \<noteq> []" "list_all word_dot_hyphen l" "d \<noteq> []" "list_all word_dot_hyphen d"
      "t \<noteq> []" "list_all word_char t" "v = [] \<or> v = [line_feed]"
      unfolding validate_email_def email_pattern_def
      by (auto simp: re_match_Lit re_match_OneOrMore re_match_EndAnchor simp del: re_match.simps)
    then show ?R
      by (intro exI [of _ l] exI [of _ d] exI [of _ t]) auto
  next
    assume ?R
    then obtain l d t where
      sh: "s = l @ ''@'' @ d @ ''.'' @ t \<or> s = l @ ''@'' @ d @ ''.'' @ t @ [line_feed]"
      and parts: "l \<noteq> []" "list_all word_dot_hyphen l" "d \<noteq> []" "list_all word_dot_hyphen d"
        "t \<noteq> []" "list_all word_char t"
      by blast
    from sh have "\<exists>v. s = l @ CHR ''@'' # d @ CHR ''.'' # t @ v \<and> (v = [] \<or> v = [line_feed])"
      by auto
    then obtain v where "s = l @ CHR ''@'' # d @ CHR ''.'' # t @ v" "v = [] \<or> v = [line_feed]"
      by blast
    with parts have
      "\<exists>u1 v1. s = u1 @ v1 \<and> u1 \<noteq> [] \<and> list_all word_dot_hyphen u1 \<and>
        (\<exists>v2. v1 = CHR ''@'' # v2 \<and>
          (\<exists>u3 v3. v2 = u3 @ v3 \<and> u3 \<noteq> [] \<and> list_all word_dot_hyphen u3 \<and>
            (\<exists>v4. v3 = CHR ''.'' # v4 \<and>
              (\<exists>u5 v5. v4 = u5 @ v5 \<and> u5 \<noteq> [] \<and> list_all word_char u5 \<and>
                (v5 = [] \<or> v5 = [line_feed])))))"
      by blast
    then show "validate_email s False"
      unfolding validate_email_def email_pattern_def
      by (simp add: re_match_Lit re_match_OneOrMore re_match_EndAnchor del: re_match.simps)
  qed
  have yes: "validate_email ''x.y-z_1@sub.domain.com'' False" by code_simp
  have no_at: "\<not> validate_email ''no-at-sign.com'' False" by code_simp
  have no_tld: "\<not> validate_email ''a@b'' False" by code_simp
  from general yes no_at no_tld show ?thesis by blast
qed

theorem validate_email_shape_witness:
  "validate_email ''ann@mail.example.org'' False"
proof -
  have "''ann@mail.example.org'' = ''ann'' @ ''@'' @ ''mail.example'' @ ''.'' @ ''org''
      \<and> list_all word_dot_hyphen ''ann'' \<and> list_all word_dot_hyphen ''mail.example''
      \<and> list_all word_char ''org''"
    by code_simp
  then have "\<exists>local domain tld.
        (''ann@mail.example.org'' = local @ ''@'' @ domain @ ''.'' @ tld
         \<or> ''ann@mail.example.org'' = local @ ''@'' @ domain @ ''.'' @ tld @ [line_feed])
        \<and> local \<noteq> [] \<and> list_all word_dot_hyphen local
        \<and> domain \<noteq> [] \<and> list_all word_dot_hyphen domain
        \<and> tld \<noteq> [] \<and> list_all word_char tld"
    by (intro exI [of _ "''ann''"] exI [of _ "''mail.example''"] exI [of _ "''org''"]) simp
  with validate_email_shape [of "''ann@mail.example.org''"] show ?thesis by blast
qed

text \<open>
  Claim C4 as it is stated fails both ways. \<open>a@b.c-d\<close> has a non-empty final segment of
  letters and a hyphen, and \<open>validate_email\<close> rejects it; \<open>a@b.co\<close> followed by a line
  feed is not of the stated form, and \<open>validate_email\<close> accepts it.
\<close>

theorem validate_email_counterexample:
  "(spec_validate_email ''a@b.c-d'' \<and> \<not> validate_email ''a@b.c-d'' False)
   \<and> (validate_email (''a@b.co'' @ [line_feed]) False
      \<and> \<not> spec_validate_email (''a@b.co'' @ [line_feed]))"
proof -
  have "''a@b.c-d'' = ''a'' @ ''@'' @ ''b'' @ ''.'' @ ''c-d''
      \<and> list_all word_dot_hyphen ''a'' \<and> list_all word_dot_hyphen ''b''
      \<and> list_all word_dot_hyphen ''c-d'' \<and> CHR ''.'' \<notin> set ''c-d''"
    by code_simp
  then have a: "spec_validate_email ''a@b.c-d''"
    unfolding spec_validate_email_def
    by (intro exI [of _ "''a''"] exI [of _ "''b''"] exI [of _ "''c-d''"]) simp
  have b: "\<not> validate_email ''a@b.c-d'' False" by code_simp
  have c: "validate_email (''a@b.co'' @ [line_feed]) False" by code_simp
  have d: "\<not> spec_validate_email (''a@b.co'' @ [line_feed])"
  proof
    assume "spec_validate_email (''a@b.co'' @ [line_feed])"
    then obtain l d t where s: "''a@b.co'' @ [line_feed] = l @ ''@'' @ d @ ''.'' @ t"
      and t: "t \<noteq> []" "list_all word_dot_hyphen t"
      unfolding spec_validate_email_def by blast
    from s t(1) have "last t = line_feed"
      by (metis append_is_Nil_conv last_appendR last_snoc)
    with t have "word_dot_hyphen line_feed"
      by (metis last_in_set list_all_iff)
    then show False by code_simp
  qed
  from a b c d show ?thesis by blast
qed


section \<open>Reading what was written\<close>

lemma special_chars [simp]:
  "line_feed \<noteq> carriage_return" "carriage_return \<noteq> line_feed"
  "quotechar \<noteq> delimiter" "delimiter \<noteq> quotechar"
  "\<not> newline_char quotechar" "\<not> newline_char delimiter"
  "newline_char line_feed" "newline_char carriage_return"
  "needs_quotes quotechar" "needs_quotes delimiter"
  "carriage_return \<noteq> quotechar" "carriage_return \<noteq> delimiter"
  "line_feed \<noteq> quotechar" "line_feed \<noteq> delimiter"
  "quotechar \<noteq> carriage_return" "quotechar \<noteq> line_feed"
  by (simp_all add: line_feed_def carriage_return_def quotechar_def delimiter_def
      newline_char_def needs_quotes_def)

lemma needs_quotes_newline [simp]: "newline_char c \<Longrightarrow> needs_quotes c"
  by (simp add: needs_quotes_def)

lemma ends_line_plain:
  "\<not> newline_char c \<Longrightarrow> cs \<noteq> [] \<Longrightarrow> \<not> ends_line c cs"
  by (simp add: ends_line_def newline_char_def)

lemma reader_rows_plain:
  assumes "\<not> list_ex needs_quotes f" and "int (length (field rd) + length f) \<le> field_limit"
    and "parse_state rd = IN_FIELD" and "rest \<noteq> []"
  shows "reader_rows rd (f @ rest) = reader_rows (rd\<lparr>field := field rd @ f\<rparr>) rest"
  using assms
proof (induction f arbitrary: rd)
  case Nil
  then show ?case by simp
next
  case (Cons c f)
  from Cons.prems(1) have c: "\<not> needs_quotes c" and f: "\<not> list_ex needs_quotes f" by simp_all
  from c have plain: "\<not> newline_char c" "c \<noteq> delimiter" "c \<noteq> quotechar"
    by (auto simp: needs_quotes_def)
  from Cons.prems(2) have room: "\<not> field_limit \<le> int (length (field rd))" by simp
  let ?rd = "rd\<lparr>field := field rd @ [c]\<rparr>"
  have step: "parse_process_char rd (Some c) = Inr ?rd"
    using plain room Cons.prems(3) by (simp add: parse_process_char_def parse_add_char_def)
  have no_end: "\<not> ends_line c (f @ rest)"
    using plain(1) Cons.prems(4) by (intro ends_line_plain) simp_all
  have "reader_rows rd ((c # f) @ rest) = reader_rows ?rd (f @ rest)"
    using step no_end by simp
  also have "\<dots> = reader_rows (?rd\<lparr>field := field ?rd @ f\<rparr>) rest"
    using f Cons.prems by (intro Cons.IH) simp_all
  finally show ?case by simp
qed

lemma reader_rows_quoted:
  assumes "int (length (field rd) + length f) \<le> field_limit"
    and "parse_state rd = IN_QUOTED_FIELD" and "rest \<noteq> []"
  shows "reader_rows rd (concat (map (\<lambda>c. if c = quotechar then [c, c] else [c]) f) @ rest)
     = reader_rows (rd\<lparr>field := field rd @ f\<rparr>) rest"
  using assms
proof (induction f arbitrary: rd)
  case Nil
  then show ?case by simp
next
  case (Cons c f)
  let ?body = "concat (map (\<lambda>c. if c = quotechar then [c, c] else [c]) f)"
  from Cons.prems(1) have room: "\<not> field_limit \<le> int (length (field rd))" by simp
  let ?rd = "rd\<lparr>field := field rd @ [c]\<rparr>"
  have next_step: "reader_rows ?rd (?body @ rest) = reader_rows (?rd\<lparr>field := field ?rd @ f\<rparr>) rest"
    using Cons.prems by (intro Cons.IH) simp_all
  have ne: "?body @ rest \<noteq> []" using Cons.prems(3) by simp
  show ?case
  proof (cases "c = quotechar")
    case True
    let ?q = "rd\<lparr>parse_state := QUOTE_IN_QUOTED_FIELD\<rparr>"
    have s1: "parse_process_char rd (Some quotechar) = Inr ?q"
      using Cons.prems(2) by (simp add: parse_process_char_def)
    have s2: "parse_process_char ?q (Some quotechar) = Inr ?rd"
      using room True Cons.prems(2) by (simp add: parse_process_char_def parse_add_char_def)
    have e1: "\<not> ends_line quotechar (quotechar # ?body @ rest)"
      by (intro ends_line_plain) simp_all
    have e2: "\<not> ends_line quotechar (?body @ rest)"
      using ne by (intro ends_line_plain) simp_all
    have "reader_rows rd (quotechar # quotechar # ?body @ rest) = reader_rows ?rd (?body @ rest)"
      using s1 s2 e1 e2 by simp
    with next_step True show ?thesis by simp
  next
    case False
    have s1: "parse_process_char rd (Some c) = Inr ?rd"
      using room False Cons.prems(2) by (simp add: parse_process_char_def parse_add_char_def)
    have s2: "parse_process_char ?rd None = Inr ?rd"
      using Cons.prems(2) by (simp add: parse_process_char_def)
    have st: "parse_state ?rd \<noteq> START_RECORD" using Cons.prems(2) by simp
    have "reader_rows rd (c # ?body @ rest) = reader_rows ?rd (?body @ rest)"
      using s1 s2 st by (simp del: reader_rows.simps add: reader_rows.simps(2) [of rd c])
    with next_step False show ?thesis by simp
  qed
qed

lemma first_plain_char:
  assumes "S = START_FIELD \<or> S = START_RECORD" and "\<not> needs_quotes c"
  shows "parse_process_char \<lparr>parse_state = S, field = [], row_fields = fs\<rparr> (Some c)
     = Inr \<lparr>parse_state = IN_FIELD, field = [c], row_fields = fs\<rparr>"
proof -
  from assms(2) have plain: "\<not> newline_char c" "c \<noteq> delimiter" "c \<noteq> quotechar"
    by (auto simp: needs_quotes_def)
  from assms(1) plain show ?thesis
    by (auto simp: parse_process_char_def start_field_def parse_add_char_def field_limit_def)
qed

lemma opening_quote:
  assumes "S = START_FIELD \<or> S = START_RECORD"
  shows "parse_process_char \<lparr>parse_state = S, field = [], row_fields = fs\<rparr> (Some quotechar)
     = Inr \<lparr>parse_state = IN_QUOTED_FIELD, field = [], row_fields = fs\<rparr>"
  using assms by (auto simp: parse_process_char_def start_field_def)

text \<open>A written field and what follows it, read up to the end of the field.\<close>

lemma reader_rows_field:
  assumes "S = START_FIELD \<or> S = START_RECORD" and "int (length f) \<le> field_limit"
    and "rest \<noteq> []" and "f \<noteq> []"
  shows "reader_rows \<lparr>parse_state = S, field = [], row_fields = fs\<rparr> (join_append f @ rest)
     = reader_rows \<lparr>parse_state = (if list_ex needs_quotes f then IN_QUOTED_FIELD else IN_FIELD),
                      field = f, row_fields = fs\<rparr>
         ((if list_ex needs_quotes f then [quotechar] else []) @ rest)"
proof (cases "list_ex needs_quotes f")
  case True
  let ?body = "concat (map (\<lambda>c. if c = quotechar then [c, c] else [c]) f)"
  let ?rd = "\<lparr>parse_state = IN_QUOTED_FIELD, field = [], row_fields = fs\<rparr>"
  have e: "\<not> ends_line quotechar (?body @ quotechar # rest)"
    by (intro ends_line_plain) simp_all
  have "reader_rows \<lparr>parse_state = S, field = [], row_fields = fs\<rparr>
          (quotechar # ?body @ quotechar # rest)
      = reader_rows ?rd (?body @ quotechar # rest)"
    using opening_quote [OF assms(1)] e by simp
  also have "\<dots> = reader_rows (?rd\<lparr>field := field ?rd @ f\<rparr>) (quotechar # rest)"
    using assms(2) by (intro reader_rows_quoted) simp_all
  finally show ?thesis using True by (simp add: join_append_def)
next
  case False
  from assms(4) obtain c f' where f: "f = c # f'" by (cases f) auto
  with False have c: "\<not> needs_quotes c" and f': "\<not> list_ex needs_quotes f'" by simp_all
  let ?rd = "\<lparr>parse_state = IN_FIELD, field = [c], row_fields = fs\<rparr>"
  have e: "\<not> ends_line c (f' @ rest)"
    using c assms(3) by (intro ends_line_plain) (auto simp: needs_quotes_def)
  have "reader_rows \<lparr>parse_state = S, field = [], row_fields = fs\<rparr> (c # f' @ rest)
      = reader_rows ?rd (f' @ rest)"
    using first_plain_char [OF assms(1) c] e by simp
  also have "\<dots> = reader_rows (?rd\<lparr>field := field ?rd @ f'\<rparr>) rest"
    using assms(2,3) f f' by (intro reader_rows_plain) simp_all
  finally show ?thesis using False f by (simp add: join_append_def)
qed

lemma reader_rows_field_delimiter:
  assumes "S = START_FIELD \<or> S = START_RECORD" and "int (length f) \<le> field_limit"
    and "rest \<noteq> []"
  shows "reader_rows \<lparr>parse_state = S, field = [], row_fields = fs\<rparr>
           (join_append f @ delimiter # rest)
     = reader_rows \<lparr>parse_state = START_FIELD, field = [], row_fields = fs @ [f]\<rparr> rest"
proof (cases "f = []")
  case True
  have "parse_process_char \<lparr>parse_state = S, field = [], row_fields = fs\<rparr> (Some delimiter)
      = Inr \<lparr>parse_state = START_FIELD, field = [], row_fields = fs @ [[]]\<rparr>"
    using assms(1)
    by (auto simp: parse_process_char_def start_field_def parse_save_field_def)
  moreover have "\<not> ends_line delimiter rest"
    using assms(3) by (intro ends_line_plain) simp_all
  ultimately show ?thesis using True by (simp add: join_append_def)
next
  case False
  have e: "\<not> ends_line delimiter rest" "\<not> ends_line quotechar (delimiter # rest)"
    using assms(3) by (simp_all add: ends_line_plain)
  show ?thesis
  proof (cases "list_ex needs_quotes f")
    case True
    have q: "parse_process_char \<lparr>parse_state = IN_QUOTED_FIELD, field = f, row_fields = fs\<rparr>
          (Some quotechar)
        = Inr \<lparr>parse_state = QUOTE_IN_QUOTED_FIELD, field = f, row_fields = fs\<rparr>"
      by (simp add: parse_process_char_def)
    have d: "parse_process_char \<lparr>parse_state = QUOTE_IN_QUOTED_FIELD, field = f, row_fields = fs\<rparr>
          (Some delimiter)
        = Inr \<lparr>parse_state = START_FIELD, field = [], row_fields = fs @ [f]\<rparr>"
      by (simp add: parse_process_char_def parse_save_field_def)
    show ?thesis
      using reader_rows_field [OF assms(1,2) _ False, of "delimiter # rest" fs] True q d e
      by simp
  next
    case no: False
    have d: "parse_process_char \<lparr>parse_state = IN_FIELD, field = f, row_fields = fs\<rparr>
          (Some delimiter)
        = Inr \<lparr>parse_state = START_FIELD, field = [], row_fields = fs @ [f]\<rparr>"
      by (simp add: parse_process_char_def parse_save_field_def)
    show ?thesis
      using reader_rows_field [OF assms(1,2) _ False, of "delimiter # rest" fs] no d e
      by simp
  qed
qed

lemma eat_crnl:
  "reader_rows \<lparr>parse_state = EAT_CRNL, field = [], row_fields = fs\<rparr> (line_feed # rest)
     = row_then fs (reader_rows parse_reset rest)"
  by (simp add: parse_process_char_def ends_line_def)

lemma reader_rows_field_end:
  assumes "S = START_FIELD \<or> (S = START_RECORD \<and> f \<noteq> [])" and "int (length f) \<le> field_limit"
  shows "reader_rows \<lparr>parse_state = S, field = [], row_fields = fs\<rparr>
           (join_append f @ carriage_return # line_feed # rest)
     = row_then (fs @ [f]) (reader_rows parse_reset rest)"
proof (cases "f = []")
  case True
  with assms(1) have S: "S = START_FIELD" by simp
  have "parse_process_char \<lparr>parse_state = S, field = [], row_fields = fs\<rparr>
          (Some carriage_return)
      = Inr \<lparr>parse_state = EAT_CRNL, field = [], row_fields = fs @ [[]]\<rparr>"
    using S by (simp add: parse_process_char_def start_field_def parse_save_field_def)
  moreover have "\<not> ends_line carriage_return (line_feed # rest)"
    by (simp add: ends_line_def)
  ultimately show ?thesis using True eat_crnl by (simp add: join_append_def)
next
  case False
  from assms(1) have S: "S = START_FIELD \<or> S = START_RECORD" by auto
  have e: "\<not> ends_line carriage_return (line_feed # rest)"
    "\<not> ends_line quotechar (carriage_return # line_feed # rest)"
    by (simp_all add: ends_line_def)
  show ?thesis
  proof (cases "list_ex needs_quotes f")
    case True
    have q: "parse_process_char \<lparr>parse_state = IN_QUOTED_FIELD, field = f, row_fields = fs\<rparr>
          (Some quotechar)
        = Inr \<lparr>parse_state = QUOTE_IN_QUOTED_FIELD, field = f, row_fields = fs\<rparr>"
      by (simp add: parse_process_char_def)
    have d: "parse_process_char \<lparr>parse_state = QUOTE_IN_QUOTED_FIELD, field = f, row_fields = fs\<rparr>
          (Some carriage_return)
        = Inr \<lparr>parse_state = EAT_CRNL, field = [], row_fields = fs @ [f]\<rparr>"
      by (simp add: parse_process_char_def parse_save_field_def)
    show ?thesis
      using reader_rows_field [OF S assms(2) _ False, of "carriage_return # line_feed # rest" fs]
        True q d e eat_crnl
      by (simp del: reader_rows.simps add: reader_rows.simps(2) [of _ quotechar]
          reader_rows.simps(2) [of _ carriage_return])
  next
    case no: False
    have d: "parse_process_char \<lparr>parse_state = IN_FIELD, field = f, row_fields = fs\<rparr>
          (Some carriage_return)
        = Inr \<lparr>parse_state = EAT_CRNL, field = [], row_fields = fs @ [f]\<rparr>"
      by (simp add: parse_process_char_def parse_save_field_def)
    show ?thesis
      using reader_rows_field [OF S assms(2) _ False, of "carriage_return # line_feed # rest" fs]
        no d e eat_crnl
      by (simp del: reader_rows.simps add: reader_rows.simps(2) [of _ carriage_return])
  qed
qed

text \<open>A written row of at least two fields, read back.\<close>

lemma reader_rows_row:
  assumes "S = START_FIELD \<or> (S = START_RECORD \<and> 2 \<le> length row)" and "row \<noteq> []"
    and "list_all (\<lambda>f. int (length f) \<le> field_limit) row"
  shows "reader_rows \<lparr>parse_state = S, field = [], row_fields = fs\<rparr>
           (py_join [delimiter] (map join_append row) @ carriage_return # line_feed # rest)
     = row_then (fs @ row) (reader_rows parse_reset rest)"
  using assms
proof (induction row arbitrary: S fs)
  case Nil
  then show ?case by simp
next
  case (Cons f row)
  show ?case
  proof (cases row)
    case Nil
    with Cons.prems have "S = START_FIELD" by auto
    with Cons.prems Nil show ?thesis
      using reader_rows_field_end [of S f fs rest] by simp
  next
    case (Cons g row')
    from Cons.prems(1) have S: "S = START_FIELD \<or> S = START_RECORD" by auto
    have "reader_rows \<lparr>parse_state = S, field = [], row_fields = fs\<rparr>
           (join_append f @ delimiter # py_join [delimiter] (map join_append row)
            @ carriage_return # line_feed # rest)
        = reader_rows \<lparr>parse_state = START_FIELD, field = [], row_fields = fs @ [f]\<rparr>
           (py_join [delimiter] (map join_append row) @ carriage_return # line_feed # rest)"
      using Cons.prems(3) by (intro reader_rows_field_delimiter [OF S]) simp_all
    also have "\<dots> = row_then ((fs @ [f]) @ row) (reader_rows parse_reset rest)"
      using Cons.prems(3) Cons by (intro Cons.IH) simp_all
    finally show ?thesis using Cons by simp
  qed
qed


lemma reader_rows_written_rows:
  assumes "list_all (\<lambda>row. 2 \<le> length row \<and> list_all (\<lambda>f. int (length f) \<le> field_limit) row) rows"
  shows "reader_rows parse_reset
           (concat (map (\<lambda>row. py_join [delimiter] (map join_append row)
                                 @ [carriage_return, line_feed]) rows) @ rest)
     = (rows @ fst (reader_rows parse_reset rest), snd (reader_rows parse_reset rest))"
  using assms
proof (induction rows)
  case Nil
  then show ?case by simp
next
  case (Cons row rows)
  let ?later = "concat (map (\<lambda>row. py_join [delimiter] (map join_append row)
                                 @ [carriage_return, line_feed]) rows) @ rest"
  from Cons.prems have row: "2 \<le> length row" "row \<noteq> []"
      "list_all (\<lambda>f. int (length f) \<le> field_limit) row"
    by auto
  have "reader_rows \<lparr>parse_state = START_RECORD, field = [], row_fields = []\<rparr>
          (py_join [delimiter] (map join_append row) @ carriage_return # line_feed # ?later)
      = row_then ([] @ row) (reader_rows parse_reset ?later)"
    using row by (intro reader_rows_row) simp_all
  with Cons show ?case by (simp add: parse_reset_def row_then_def)
qed

text \<open>The strings that the writer makes of the values of a row.\<close>

lemma writerow_long:
  "2 \<le> length row \<Longrightarrow>
   writerow row =
     py_join [delimiter] (map join_append (map (\<lambda>v. case v of None \<Rightarrow> [] | Some f \<Rightarrow> f) row))
     @ [carriage_return, line_feed]"
  by (cases row; cases "tl row") (auto simp: writerow_def Let_def)

lemma writerows_all:
  "list_all (\<lambda>c. restkey c = None) cs \<Longrightarrow>
   writerows cs = (concat (map (\<lambda>c. writerow (contact_row c)) cs), None)"
  by (induction cs) simp_all

lemma save_contacts_saved:
  assumes "write_access s = Granted" and "list_all (\<lambda>c. restkey c = None) (contacts s)"
  shows "save_contacts s =
     Inr (s\<lparr>contacts_file := Some (Text (csv_text (contacts s))),
            stdout := stdout s @ [''Changes saved.'']\<rparr>)"
  using assms by (simp add: save_contacts_def writerows_all csv_text_def print_def)

lemma writeheader_line:
  "writeheader = py_join [delimiter] (map join_append FIELDNAMES) @ [carriage_return, line_feed]"
  by (simp add: writeheader_def writerow_long FIELDNAMES_def)

lemma writerow_contact_row:
  "writerow (contact_row c) =
     py_join [delimiter]
       (map join_append (map (\<lambda>v. case v of None \<Rightarrow> [] | Some f \<Rightarrow> f) (contact_row c)))
     @ [carriage_return, line_feed]"
  by (simp add: writerow_long contact_row_def)

lemma reader_rows_csv_text:
  assumes "list_all (\<lambda>c. list_all (\<lambda>v. int (length (case v of None \<Rightarrow> [] | Some f \<Rightarrow> f)) \<le> field_limit)
                        (contact_row c)) cs"
  shows "reader_rows parse_reset (csv_text cs)
     = (FIELDNAMES # map (\<lambda>c. map (\<lambda>v. case v of None \<Rightarrow> [] | Some f \<Rightarrow> f) (contact_row c)) cs,
        None)"
proof -
  let ?str = "\<lambda>v. case v of None \<Rightarrow> [] | Some f \<Rightarrow> f"
  let ?rows = "FIELDNAMES # map (\<lambda>c. map ?str (contact_row c)) cs"
  let ?line = "\<lambda>row. py_join [delimiter] (map join_append row) @ [carriage_return, line_feed]"
  have whole: "csv_text cs = concat (map ?line ?rows)"
    by (simp add: csv_text_def writeheader_line writerow_contact_row comp_def)
  have small: "list_all (\<lambda>f. int (length f) \<le> field_limit) FIELDNAMES"
    by (simp add: FIELDNAMES_def field_limit_def)
  have "list_all (\<lambda>row. 2 \<le> length row \<and> list_all (\<lambda>f. int (length f) \<le> field_limit) row) ?rows"
    using assms small
    by (simp add: list_all_iff) (auto simp: FIELDNAMES_def contact_row_def)
  from reader_rows_written_rows [OF this, of "[]"] whole show ?thesis
    by (simp add: parse_reset_def)
qed

lemma dict_row_contact_row:
  assumes "restkey c = None"
    and "list_all (\<lambda>v. case v of None \<Rightarrow> False | Some x \<Rightarrow> int (length x) \<le> field_limit) (contact_row c)"
  shows "dict_row (map (\<lambda>v. case v of None \<Rightarrow> [] | Some f \<Rightarrow> f) (contact_row c)) = c"
  using assms
  by (cases c) (auto simp: dict_row_def contact_row_def field_at_def split: option.splits)

lemma load_contacts_csv_text:
  assumes "contacts_file s = Some (Text (csv_text cs))" and "read_access s = Granted"
    and "list_all storable cs"
  shows "load_contacts s = Inr (s\<lparr>contacts := cs\<rparr>)"
proof -
  let ?str = "\<lambda>v. case v of None \<Rightarrow> [] | Some f \<Rightarrow> f"
  have "list_all (\<lambda>c. list_all (\<lambda>v. int (length (?str v)) \<le> field_limit) (contact_row c)) cs"
    using assms(3) by (auto simp: list_all_iff storable_def split: option.splits)
  from reader_rows_csv_text [OF this]
  have rows: "reader_rows parse_reset (csv_text cs)
      = (FIELDNAMES # map (\<lambda>c. map ?str (contact_row c)) cs, None)" .
  have restored: "map dict_row (filter (\<lambda>r. r \<noteq> []) (map (\<lambda>c. map ?str (contact_row c)) cs)) = cs"
    using assms(3)
  proof (induction cs)
    case Nil
    then show ?case by simp
  next
    case (Cons c cs)
    then have "dict_row (map ?str (contact_row c)) = c"
      by (intro dict_row_contact_row) (simp_all add: storable_def)
    moreover have "map ?str (contact_row c) \<noteq> []" by (simp add: contact_row_def)
    ultimately show ?case using Cons by simp
  qed
  show ?thesis
    using assms(1,2) by (simp add: load_contacts_def fieldnames_def rows restored Let_def)
qed


lemma reader_rows_overflow:
  assumes "\<not> needs_quotes c" and "parse_state rd = IN_FIELD"
    and "int (length (field rd)) \<le> field_limit" and "field_limit < int (length (field rd) + n)"
  shows "reader_rows rd (replicate n c @ rest) = ([], Some Csv_Error)"
  using assms
proof (induction n arbitrary: rd)
  case 0
  then show ?case by simp
next
  case (Suc n)
  from Suc.prems(1) have plain: "\<not> newline_char c" "c \<noteq> delimiter" "c \<noteq> quotechar"
    by (auto simp: needs_quotes_def)
  show ?case
  proof (cases "field_limit \<le> int (length (field rd))")
    case True
    then have "parse_process_char rd (Some c) = Inl Csv_Error"
      using plain Suc.prems(2) by (simp add: parse_process_char_def parse_add_char_def)
    then show ?thesis by simp
  next
    case False
    let ?rd = "rd\<lparr>field := field rd @ [c]\<rparr>"
    have step: "parse_process_char rd (Some c) = Inr ?rd"
      using plain False Suc.prems(2) by (simp add: parse_process_char_def parse_add_char_def)
    from False Suc.prems(4) have "0 < n" by simp
    then have "replicate n c @ rest \<noteq> []" by simp
    with plain(1) have no_end: "\<not> ends_line c (replicate n c @ rest)"
      by (intro ends_line_plain)
    have "reader_rows ?rd (replicate n c @ rest) = ([], Some Csv_Error)"
      using Suc.prems False by (intro Suc.IH) simp_all
    with step no_end show ?thesis by simp
  qed
qed

lemma reader_rows_long_field:
  assumes "\<not> needs_quotes c0" and "\<not> needs_quotes c"
  shows "reader_rows parse_reset (c0 # replicate (nat field_limit) c @ rest)
     = ([], Some Csv_Error)"
proof -
  let ?rd = "\<lparr>parse_state = IN_FIELD, field = [c0], row_fields = []\<rparr>"
  have first: "parse_process_char parse_reset (Some c0) = Inr ?rd"
    unfolding parse_reset_def using assms(1) by (intro first_plain_char) simp_all
  have more: "replicate (nat field_limit) c @ rest \<noteq> []" by (simp add: field_limit_def)
  from assms(1) have "\<not> newline_char c0" by (auto simp: needs_quotes_def)
  with more have no_end: "\<not> ends_line c0 (replicate (nat field_limit) c @ rest)"
    by (intro ends_line_plain)
  have "reader_rows ?rd (replicate (nat field_limit) c @ rest) = ([], Some Csv_Error)"
    using assms(2) by (intro reader_rows_overflow) (simp_all add: field_limit_def)
  with first no_end show ?thesis by simp
qed

section \<open>Loading and saving\<close>

text \<open>
  Claim C6, as amended. Let the file be readable text whose header row, as the \<open>csv\<close>
  reader returns it, is not the list of the five column names; the file may also have
  no record at all. Then \<open>load_contacts\<close> returns normally, leaves \<open>contacts\<close> empty,
  writes the message about the format and leaves the file as it was: the state differs
  only in \<open>contacts\<close> and in the console.
\<close>

theorem load_contacts_wrong_header:
  assumes "contacts_file s = Some (Text t)" and "read_access s = Granted"
    and "fieldnames t = Inr header" and "header \<noteq> Some FIELDNAMES"
  shows "load_contacts s =
     Inr (s\<lparr>contacts := [],
            stdout := stdout s @
              [''Invalid CSV format. Expected headers: ''
               @ ''first_name, middle_name, last_name, number, email'']\<rparr>)"
  using assms
  by (simp add: load_contacts_def Let_def print_def invalid_format_def FIELDNAMES_def)

theorem load_contacts_wrong_header_witness:
  "fieldnames foreign_text = Inr (Some [''name'', ''phone''])
   \<and> Some [''name'', ''phone''] \<noteq> Some FIELDNAMES
   \<and> contacts foreign_book = [bob, ann]
   \<and> load_contacts foreign_book =
       Inr (foreign_book\<lparr>contacts := [],
              stdout := stdout foreign_book @
                [''Invalid CSV format. Expected headers: ''
                 @ ''first_name, middle_name, last_name, number, email'']\<rparr>)"
proof -
  have on_disk: "contacts_file foreign_book = Some (Text foreign_text)"
    by (simp add: foreign_book_def)
  have access: "read_access foreign_book = Granted"
    by (simp add: foreign_book_def address_book_def)
  have names: "fieldnames foreign_text = Inr (Some [''name'', ''phone''])"
    by code_simp
  have differs: "Some [''name'', ''phone''] \<noteq> Some FIELDNAMES"
    by (simp add: FIELDNAMES_def)
  have before: "contacts foreign_book = [bob, ann]"
    by (simp add: foreign_book_def address_book_def)
  from load_contacts_wrong_header [OF on_disk access names differs] names differs before
  show ?thesis by blast
qed

text \<open>
  Claim C6 as it is stated fails on a file whose header row has a field of more than
  131072 characters. Such a header is not the list of the column names, and reading it
  raises \<open>csv.Error\<close>, which \<open>load_contacts\<close> does not handle: the exception reaches the
  caller and no message is written.
\<close>

theorem load_contacts_wide_header_counterexample:
  "hd wide_text = CHR ''x''
   \<and> load_contacts wide_book = Inl (Csv_Error, wide_book\<lparr>contacts := []\<rparr>)"
proof -
  have plain: "\<not> needs_quotes (CHR ''x'')"
    by (simp add: needs_quotes_def delimiter_def quotechar_def newline_char_def
        line_feed_def carriage_return_def)
  have "reader_rows parse_reset wide_text = ([], Some Csv_Error)"
    unfolding wide_text_def using reader_rows_long_field [OF plain plain] by simp
  then have names: "fieldnames wide_text = Inl Csv_Error"
    by (simp add: fieldnames_def)
  have first: "hd wide_text = CHR ''x''" by (simp add: wide_text_def)
  from names first show ?thesis
    by (simp add: load_contacts_def wide_book_def address_book_def)
qed


text \<open>
  Claim C10, as amended. Let every contact of the collection have the five field names
  as its only keys, with strings of at most 131072 characters as values, and let the
  file be writable and readable. Then \<open>save_contacts\<close> writes the header and one row
  for each contact, and \<open>load_contacts\<close> on that file, whatever list is in memory when
  it starts, returns normally with the contacts that were saved, in the order in which
  they were stored.
\<close>

theorem save_then_load:
  assumes "write_access s = Granted" and "read_access s = Granted"
    and "list_all storable (contacts s)"
  shows "let saved = s\<lparr>contacts_file := Some (Text (csv_text (contacts s))),
                        stdout := stdout s @ [''Changes saved.'']\<rparr>
         in save_contacts s = Inr saved
            \<and> load_contacts (saved\<lparr>contacts := in_memory\<rparr>) = Inr saved"
proof -
  define saved where "saved = s\<lparr>contacts_file := Some (Text (csv_text (contacts s))),
                        stdout := stdout s @ [''Changes saved.'']\<rparr>"
  from assms(3) have keys: "list_all (\<lambda>c. restkey c = None) (contacts s)"
    by (simp add: list_all_iff storable_def)
  have save: "save_contacts s = Inr saved"
    unfolding saved_def by (rule save_contacts_saved [OF assms(1) keys])
  have "load_contacts (saved\<lparr>contacts := in_memory\<rparr>)
      = Inr (saved\<lparr>contacts := in_memory\<rparr>\<lparr>contacts := contacts s\<rparr>)"
    using assms(2,3) by (intro load_contacts_csv_text) (simp_all add: saved_def)
  also have "\<dots> = Inr saved" by (simp add: saved_def)
  finally show ?thesis using save unfolding Let_def saved_def by simp
qed

theorem save_then_load_witness:
  "list_all storable (contacts foreign_book)
   \<and> contacts foreign_book = [bob, ann]
   \<and> csv_text [bob, ann] =
       ''first_name,middle_name,last_name,number,email'' @ [carriage_return, line_feed]
       @ ''Bob,Ray,Lee,5550002222,bob@mail.example.org'' @ [carriage_return, line_feed]
       @ ''Ann,,Lee,5550001111,ann@mail.example.org'' @ [carriage_return, line_feed]
   \<and> save_contacts foreign_book =
       Inr (foreign_book\<lparr>contacts_file := Some (Text (csv_text [bob, ann])),
              stdout := [''Changes saved.'']\<rparr>)
   \<and> load_contacts (foreign_book\<lparr>contacts_file := Some (Text (csv_text [bob, ann])),
                       stdout := [''Changes saved.''], contacts := []\<rparr>) =
       Inr (foreign_book\<lparr>contacts_file := Some (Text (csv_text [bob, ann])),
              stdout := [''Changes saved.'']\<rparr>)"
proof -
  have w: "write_access foreign_book = Granted" and r: "read_access foreign_book = Granted"
    and c: "contacts foreign_book = [bob, ann]" and out: "stdout foreign_book = []"
    by (simp_all add: foreign_book_def address_book_def)
  have ok: "list_all storable (contacts foreign_book)" by code_simp
  have on_disk: "csv_text [bob, ann] =
       ''first_name,middle_name,last_name,number,email'' @ [carriage_return, line_feed]
       @ ''Bob,Ray,Lee,5550002222,bob@mail.example.org'' @ [carriage_return, line_feed]
       @ ''Ann,,Lee,5550001111,ann@mail.example.org'' @ [carriage_return, line_feed]"
    by code_simp
  note run = save_then_load [OF w r ok, of "[]", unfolded Let_def c out]
  from run have saved: "save_contacts foreign_book =
       Inr (foreign_book\<lparr>contacts_file := Some (Text (csv_text [bob, ann])),
              stdout := [''Changes saved.'']\<rparr>)"
    by simp
  from run have loaded: "load_contacts (foreign_book\<lparr>contacts_file := Some (Text (csv_text [bob, ann])),
                       stdout := [''Changes saved.''], contacts := []\<rparr>) =
       Inr (foreign_book\<lparr>contacts_file := Some (Text (csv_text [bob, ann])),
              stdout := [''Changes saved.'']\<rparr>)"
    by simp
  from ok c on_disk saved loaded show ?thesis by blast
qed

text \<open>
  Claim C10 as it is stated fails on a contact with a first name of 131073 letters, a
  string that \<open>validate_name\<close> accepts. \<open>save_contacts\<close> writes it, and \<open>load_contacts\<close>
  on the file written raises \<open>csv.Error\<close> at that row: the contacts of the rows before
  are back and the others are not.
\<close>

theorem save_then_load_long_field_counterexample:
  "list_all (\<lambda>c. restkey c = None \<and> list_all (\<lambda>v. v \<noteq> None) (contact_row c))
     (contacts long_book)
   \<and> validate_name long_name False
   \<and> save_contacts long_book =
       Inr (long_book\<lparr>contacts_file := Some (Text (csv_text [bob, ann_long])),
              stdout := [''Changes saved.'']\<rparr>)
   \<and> load_contacts (long_book\<lparr>contacts_file := Some (Text (csv_text [bob, ann_long])),
                       stdout := [''Changes saved.'']\<rparr>) =
       Inl (Csv_Error,
            long_book\<lparr>contacts := [bob],
              contacts_file := Some (Text (csv_text [bob, ann_long])),
              stdout := [''Changes saved.'']\<rparr>)"
proof -
  have strings: "list_all (\<lambda>c. restkey c = None \<and> list_all (\<lambda>v. v \<noteq> None) (contact_row c))
     (contacts long_book)"
    by (simp add: long_book_def ann_long_def ann_def bob_def contact_row_def)
  have letters: "list_all py_isalpha_char long_name"
    by (simp add: long_name_def list_all_iff py_isalpha_char_def between_def code_def)
  then have valid: "validate_name long_name False"
    by (simp add: validate_name_def py_isalpha_def long_name_def)
  have keys: "list_all (\<lambda>c. restkey c = None) (contacts long_book)"
    using strings by (simp add: list_all_iff)
  have w: "write_access long_book = Granted" and r: "read_access long_book = Granted"
    and c: "contacts long_book = [bob, ann_long]" and out: "stdout long_book = []"
    by (simp_all add: long_book_def address_book_def)
  have save: "save_contacts long_book =
       Inr (long_book\<lparr>contacts_file := Some (Text (csv_text [bob, ann_long])),
              stdout := [''Changes saved.'']\<rparr>)"
    using save_contacts_saved [OF w keys] c out by simp
  let ?str = "\<lambda>v. case v of None \<Rightarrow> [] | Some f \<Rightarrow> f"
  let ?line = "\<lambda>row. py_join [delimiter] (map join_append row) @ [carriage_return, line_feed]"
  have plain: "\<not> needs_quotes (CHR ''a'')" "\<not> needs_quotes (CHR ''A'')"
    by (simp_all add: needs_quotes_def delimiter_def quotechar_def newline_char_def
        line_feed_def carriage_return_def)
  then have unquoted: "join_append long_name = long_name"
    by (simp add: join_append_def long_name_def list_ex_iff)
  obtain rest where last_row: "writerow (contact_row ann_long) = long_name @ rest"
    using unquoted
    by (simp add: writerow_long contact_row_def ann_long_def ann_def)
  have whole: "csv_text [bob, ann_long]
      = concat (map ?line [FIELDNAMES, map ?str (contact_row bob)]) @ long_name @ rest"
    by (simp add: csv_text_def writeheader_line last_row writerow_contact_row [of bob])
  have small: "list_all (\<lambda>row. 2 \<le> length row \<and> list_all (\<lambda>f. int (length f) \<le> field_limit) row)
      [FIELDNAMES, map ?str (contact_row bob)]"
    by (simp add: FIELDNAMES_def contact_row_def bob_def field_limit_def)
  have stop: "reader_rows parse_reset (long_name @ rest) = ([], Some Csv_Error)"
    unfolding long_name_def using reader_rows_long_field [OF plain(2) plain(1)] by simp
  have read: "reader_rows parse_reset (csv_text [bob, ann_long])
      = ([FIELDNAMES, map ?str (contact_row bob)], Some Csv_Error)"
    unfolding whole using reader_rows_written_rows [OF small, of "long_name @ rest"] stop
    by simp
  have bob: "dict_row (map ?str (contact_row bob)) = bob"
    by (simp add: dict_row_def contact_row_def bob_def field_at_def)
  have load: "load_contacts (long_book\<lparr>contacts_file := Some (Text (csv_text [bob, ann_long])),
                       stdout := [''Changes saved.'']\<rparr>) =
       Inl (Csv_Error,
            long_book\<lparr>contacts := [bob],
              contacts_file := Some (Text (csv_text [bob, ann_long])),
              stdout := [''Changes saved.'']\<rparr>)"
    using r bob
    by (simp add: load_contacts_def fieldnames_def read Let_def contact_row_def)
  from strings valid save load show ?thesis by blast
qed

end
